theory Spec2Isabelle
  imports Main
begin

section \<open>Values of the host platform and of the editing engine\<close>

text \<open>
  The module under verification is the event layer of the editor
  (\<^verbatim>\<open>src/unnamed/part_000\<close>): the handlers registered on a root element, the
  document-level selection listener, and the attach and detach functions. Everything the
  module only consumes (the engine's selection and node objects, the platform's events)
  is modelled by the fields the handlers read.
\<close>

text \<open>A JavaScript reference that may be \<^verbatim>\<open>undefined\<close> or \<^verbatim>\<open>null\<close>.\<close>

datatype 'a jsref = Undefined | Null | Obj 'a

text \<open>
  An editor object. Its identity (\<open>editor_id\<close>), its \<^verbatim>\<open>_key\<close> and its
  \<^verbatim>\<open>_parentEditor\<close> are fixed when the editor is created, so they are part of the
  handle; the parent chain of a handle is finite, as an editor can only be created below
  an editor that exists already. Two handles are the same object iff they are equal.
\<close>

datatype editor = Editor (editor_id: nat) (editor_key: string) (parentEditor: "editor option")

text \<open>An opaque static range, as \<^verbatim>\<open>event.getTargetRanges()\<close> returns them.\<close>

datatype static_range = StaticRange nat

text \<open>
  The fields of a platform event that the handlers read. \<open>event_type\<close> is the name the
  platform dispatches the event under; \<open>data\<close> is \<open>None\<close> for \<^verbatim>\<open>null\<close>;
  \<open>dataTransfer\<close> holds what \<^verbatim>\<open>getData('text/plain')\<close> returns when the event has a
  data transfer; \<open>getTargetRanges\<close> is \<open>None\<close> when the event has no such method.
\<close>

record event =
  event_type :: string
  key :: string
  keyCode :: nat
  shiftKey :: bool
  ctrlKey :: bool
  metaKey :: bool
  altKey :: bool
  inputType :: string
  data :: "string option"
  dataTransfer :: "string option"
  getTargetRanges :: "static_range list option"

text \<open>
  A node of the engine's document, by the queries this module makes on it:
  \<^verbatim>\<open>$isElementNode\<close>, \<^verbatim>\<open>$isRootNode\<close>, \<^verbatim>\<open>$isTokenOrInert\<close>, \<^verbatim>\<open>getFormat()\<close> and
  \<^verbatim>\<open>getTopLevelElementOrThrow().isEmpty()\<close> (\<open>None\<close> when the node has no top-level
  element, where the engine throws). Two node objects are the same iff the records are equal.
\<close>

record lexical_node =
  node_key :: string
  isElementNode :: bool
  isRootNode :: bool
  isTokenOrInert :: bool
  getFormat :: nat
  topLevelElementIsEmpty :: "bool option"

text \<open>A selection point: \<^verbatim>\<open>key\<close>, \<^verbatim>\<open>offset\<close>, \<^verbatim>\<open>type\<close> and the result of \<^verbatim>\<open>getNode()\<close>.\<close>

record point =
  point_key :: string
  offset :: nat
  point_type :: string
  getNode :: lexical_node

text \<open>A range selection; \<open>isCollapsed\<close> is what the engine's method of that name returns.\<close>

record range_selection =
  anchor :: point
  focus :: point
  dirty :: bool
  format :: nat
  isCollapsed :: bool

text \<open>The payload of a command: nothing, the raw event, a flag or a string.\<close>

datatype payload = NoPayload | EventPayload event | BoolPayload bool | StringPayload string

text \<open>A callback given to \<^verbatim>\<open>setTimeout\<close>: the deferred composition-end logic.\<close>

datatype task = CompositionEndTask event editor

datatype error = TypeError | InvariantError

text \<open>
  What a handler does to the outside, in the order it does it: commands sent to the
  dispatch sink, calls on the raw event, calls into the engine, calls on the platform,
  and the exceptions that reach the platform (a property read on \<^verbatim>\<open>undefined\<close> or
  \<^verbatim>\<open>null\<close>, the engine's invariant).
\<close>

datatype effect =
    ExecCommand editor string payload
  | PreventDefault
  | StopPropagation
  | SetCompositionKey editor "string option"
  | SetSelection editor "range_selection option"
  | InsertRawText editor string
  | UpdateSelectedTextFromDOM editor bool
  | FlushMutations editor
  | RemoveAllRanges
  | UncaughtError error

text \<open>
  The functions of \<^verbatim>\<open>LexicalUtils\<close> and the constants of \<^verbatim>\<open>shared/environment\<close> that the
  module imports and whose source is not part of it: they are parameters of the model.
  \<open>applyDOMRange\<close> and \<open>selection_is\<close> are the selection's methods of those names.
\<close>

record environment =
  CAN_USE_BEFORE_INPUT :: bool
  IS_FIREFOX :: bool
  isMoveForward :: "nat \<Rightarrow> bool \<Rightarrow> bool \<Rightarrow> bool \<Rightarrow> bool \<Rightarrow> bool"
  isMoveBackward :: "nat \<Rightarrow> bool \<Rightarrow> bool \<Rightarrow> bool \<Rightarrow> bool \<Rightarrow> bool"
  isMoveUp :: "nat \<Rightarrow> bool \<Rightarrow> bool \<Rightarrow> bool \<Rightarrow> bool \<Rightarrow> bool"
  isMoveDown :: "nat \<Rightarrow> bool \<Rightarrow> bool \<Rightarrow> bool \<Rightarrow> bool \<Rightarrow> bool"
  isLineBreak :: "nat \<Rightarrow> bool \<Rightarrow> bool"
  isOpenLineBreak :: "nat \<Rightarrow> bool \<Rightarrow> bool"
  isParagraph :: "nat \<Rightarrow> bool \<Rightarrow> bool"
  isDeleteBackward :: "nat \<Rightarrow> bool \<Rightarrow> bool \<Rightarrow> bool \<Rightarrow> bool"
  isBackspace :: "nat \<Rightarrow> bool"
  isEscape :: "nat \<Rightarrow> bool"
  isDeleteForward :: "nat \<Rightarrow> bool \<Rightarrow> bool \<Rightarrow> bool \<Rightarrow> bool \<Rightarrow> bool"
  isDelete :: "nat \<Rightarrow> bool"
  isDeleteWordBackward :: "nat \<Rightarrow> bool \<Rightarrow> bool \<Rightarrow> bool"
  isDeleteWordForward :: "nat \<Rightarrow> bool \<Rightarrow> bool \<Rightarrow> bool"
  isDeleteLineBackward :: "nat \<Rightarrow> bool \<Rightarrow> bool"
  isDeleteLineForward :: "nat \<Rightarrow> bool \<Rightarrow> bool"
  isBold :: "nat \<Rightarrow> bool \<Rightarrow> bool \<Rightarrow> bool"
  isUnderline :: "nat \<Rightarrow> bool \<Rightarrow> bool \<Rightarrow> bool"
  isItalic :: "nat \<Rightarrow> bool \<Rightarrow> bool \<Rightarrow> bool"
  isTab :: "nat \<Rightarrow> bool \<Rightarrow> bool \<Rightarrow> bool \<Rightarrow> bool"
  isUndo :: "nat \<Rightarrow> bool \<Rightarrow> bool \<Rightarrow> bool \<Rightarrow> bool"
  isRedo :: "nat \<Rightarrow> bool \<Rightarrow> bool \<Rightarrow> bool \<Rightarrow> bool"
  shouldPreventDefaultAndInsertText :: "range_selection \<Rightarrow> string \<Rightarrow> bool \<Rightarrow> bool"
  applyDOMRange :: "range_selection \<Rightarrow> static_range \<Rightarrow> range_selection"
  selection_is :: "range_selection \<Rightarrow> range_selection \<Rightarrow> bool"

section \<open>The state the module reads and writes\<close>

text \<open>
  A node of the page. Its parent chain is what the upward walk of the selection listener
  follows; the fields the module reads and writes on the node are in the world, under
  \<open>dom_id\<close>.
\<close>

datatype dom_node = DomNode (dom_id: nat) (parentNode: "dom_node option")

text \<open>The semantic handlers of the listener table.\<close>

datatype handler =
  OnKeyDown | OnCompositionStart | OnCompositionEnd | OnInput | OnClick | OnBeforeInput

text \<open>An entry of the table: a handler, or the marker \<^verbatim>\<open>PASS_THROUGH_COMMAND\<close>.\<close>

datatype on_event = Handler handler | PASS_THROUGH_COMMAND

text \<open>
  A listener registered on a root element: the closure \<^verbatim>\<open>eventHandler\<close> that
  \<^verbatim>\<open>addRootElementEvents\<close> creates. \<open>listener_id\<close> is the identity of the closure;
  \<open>onEvent\<close> and \<open>listener_editor\<close> are the table entry and the editor it captured.
\<close>

record listener =
  listener_id :: nat
  eventName :: string
  onEvent :: on_event
  listener_editor :: editor

text \<open>
  A removal handle: the closure pushed on \<^verbatim>\<open>removeHandles\<close>, which calls
  \<^verbatim>\<open>rootElement.removeEventListener(eventName, eventHandler)\<close>.
\<close>

record remove_handle =
  handle_element :: nat
  handle_eventName :: string
  handle_listener :: nat

text \<open>
  The fields of an element of the page: its \<^verbatim>\<open>contentEditable\<close>, its owner document, the
  internal fields \<^verbatim>\<open>__lexicalEditor\<close> and \<^verbatim>\<open>_lexicalEventHandles\<close> (\<open>None\<close> while
  undefined), and the listeners the platform holds for it, in registration order.
\<close>

record root_element =
  contentEditable :: string
  ownerDocument :: nat
  lexicalEditor :: "editor jsref"
  lexicalEventHandles :: "remove_handle list option"
  listeners :: "listener list"

text \<open>
  The world: the two module-level variables (\<open>lastKeyWasMaybeAndroidSoftKey\<close>,
  \<open>activeNestedEditorsMap\<close>); the page (\<open>elements\<close> by \<open>dom_id\<close>, the documents'
  \<^verbatim>\<open>_lexicalEvent\<close> field and whether \<open>onDocumentSelectionChange\<close> is registered on
  them, the anchor node of \<^verbatim>\<open>window.getSelection()\<close>); the engine's state per editor
  (the composition key, the selection of the pending state, the selection of the committed
  state, the number of children of the root node, the editor's root element); the pending
  timers; the effects so far; and the next fresh closure identity.
\<close>

record world =
  lastKeyWasMaybeAndroidSoftKey :: bool
  activeNestedEditorsMap :: "string \<rightharpoonup> editor"
  elements :: "nat \<Rightarrow> root_element"
  lexicalEvent :: "nat \<Rightarrow> bool"
  selectionchange :: "nat \<Rightarrow> bool"
  windowAnchorNode :: "dom_node option"
  compositionKey :: "editor \<Rightarrow> string option"
  selection :: "editor \<Rightarrow> range_selection option"
  editorStateSelection :: "editor \<Rightarrow> range_selection option"
  rootChildrenSize :: "editor \<Rightarrow> nat"
  getRootElement :: "editor \<Rightarrow> nat option"
  timers :: "task list"
  trace :: "effect list"
  nextClosure :: nat

text \<open>
  The result of a function that may throw: \<open>Inl\<close> holds the exception and the world as
  the function left it when it threw, \<open>Inr\<close> the world after a normal return.
\<close>

type_synonym outcome = "(error \<times> world) + world"

section \<open>Calls into the engine and on the event\<close>

text \<open>
  The dispatch sink is outside the module: \<open>execCommand\<close> records the command in the
  trace and leaves the rest of the world alone. \<^verbatim>\<open>editor.update(f)\<close> is taken to run \<open>f\<close>
  at once, with \<^verbatim>\<open>$getSelection()\<close> reading the selection of the editor being updated.
\<close>

definition emit :: "effect \<Rightarrow> world \<Rightarrow> world" where
  "emit x w = w\<lparr>trace := trace w @ [x]\<rparr>"

definition execCommand :: "editor \<Rightarrow> string \<Rightarrow> payload \<Rightarrow> world \<Rightarrow> world" where
  "execCommand editor name p w = emit (ExecCommand editor name p) w"

definition preventDefault :: "world \<Rightarrow> world" where
  "preventDefault w = emit PreventDefault w"

definition stopPropagation :: "world \<Rightarrow> world" where
  "stopPropagation w = emit StopPropagation w"

text \<open>
  Modelled from the spec: \<^verbatim>\<open>isComposing\<close> and \<^verbatim>\<open>$setCompositionKey\<close> are engine code
  outside the module. The spec's state machine has an editor in \<open>Composing\<close> exactly
  while a composition key is recorded for it.
\<close>

definition isComposing :: "editor \<Rightarrow> world \<Rightarrow> bool" where
  "isComposing editor w = (compositionKey w editor \<noteq> None)"

definition setCompositionKey :: "editor \<Rightarrow> string option \<Rightarrow> world \<Rightarrow> world" where
  "setCompositionKey editor k w =
     emit (SetCompositionKey editor k) (w\<lparr>compositionKey := (compositionKey w)(editor := k)\<rparr>)"

text \<open>
  Modelled from the spec: \<^verbatim>\<open>$setSelection\<close> is engine code outside the module; it
  replaces the selection of the editor being updated.
\<close>

definition setSelection :: "editor \<Rightarrow> range_selection option \<Rightarrow> world \<Rightarrow> world" where
  "setSelection editor s w =
     emit (SetSelection editor s) (w\<lparr>selection := (selection w)(editor := s)\<rparr>)"

text \<open>A write to a field of the selection object that \<^verbatim>\<open>$getSelection()\<close> returned.\<close>

definition writeSelection :: "editor \<Rightarrow> range_selection \<Rightarrow> world \<Rightarrow> world" where
  "writeSelection editor s w = w\<lparr>selection := (selection w)(editor \<mapsto> s)\<rparr>"

definition removeAllRanges :: "world \<Rightarrow> world" where
  "removeAllRanges w = emit RemoveAllRanges (w\<lparr>windowAnchorNode := None\<rparr>)"

section \<open>Keyboard translation\<close>

definition updateAndroidSoftKeyFlagIfAny :: "event \<Rightarrow> world \<Rightarrow> world" where
  "updateAndroidSoftKeyFlagIfAny event w =
     w\<lparr>lastKeyWasMaybeAndroidSoftKey := (key event = ''Unidentified'' \<and> keyCode event = 229)\<rparr>"

definition onKeyDown :: "environment \<Rightarrow> event \<Rightarrow> editor \<Rightarrow> world \<Rightarrow> world" where
  "onKeyDown E event editor w0 =
    (let w = updateAndroidSoftKeyFlagIfAny event w0;
         kc = keyCode event; shift = shiftKey event; ctrl = ctrlKey event;
         meta = metaKey event; alt = altKey event
     in
     if isComposing editor w then w
     else if isMoveForward E kc ctrl shift alt meta then
       execCommand editor ''keyArrowRight'' (EventPayload event) w
     else if isMoveBackward E kc ctrl shift alt meta then
       execCommand editor ''keyArrowLeft'' (EventPayload event) w
     else if isMoveUp E kc ctrl shift alt meta then
       execCommand editor ''keyArrowUp'' (EventPayload event) w
     else if isMoveDown E kc ctrl shift alt meta then
       execCommand editor ''keyArrowDown'' (EventPayload event) w
     else if isLineBreak E kc shift then
       execCommand editor ''keyEnter'' (EventPayload event) w
     else if isOpenLineBreak E kc ctrl then
       execCommand editor ''insertLineBreak'' (BoolPayload True) (preventDefault w)
     else if isParagraph E kc shift then
       execCommand editor ''keyEnter'' (EventPayload event) w
     else if isDeleteBackward E kc alt meta ctrl then
       (if isBackspace E kc then execCommand editor ''keyBackspace'' (EventPayload event) w
        else execCommand editor ''deleteCharacter'' (BoolPayload True) w)
     else if isEscape E kc then
       execCommand editor ''keyEscape'' (EventPayload event) w
     else if isDeleteForward E kc ctrl shift alt meta then
       (if isDelete E kc then execCommand editor ''keyDelete'' (EventPayload event) w
        else execCommand editor ''deleteCharacter'' (BoolPayload False) (preventDefault w))
     else if isDeleteWordBackward E kc alt ctrl then
       execCommand editor ''deleteWord'' (BoolPayload True) (preventDefault w)
     else if isDeleteWordForward E kc alt ctrl then
       execCommand editor ''deleteWord'' (BoolPayload False) (preventDefault w)
     else if isDeleteLineBackward E kc meta then
       execCommand editor ''deleteLine'' (BoolPayload True) (preventDefault w)
     else if isDeleteLineForward E kc meta then
       execCommand editor ''deleteLine'' (BoolPayload False) (preventDefault w)
     else if isBold E kc meta ctrl then
       execCommand editor ''formatText'' (StringPayload ''bold'') (preventDefault w)
     else if isUnderline E kc meta ctrl then
       execCommand editor ''formatText'' (StringPayload ''underline'') (preventDefault w)
     else if isItalic E kc meta ctrl then
       execCommand editor ''formatText'' (StringPayload ''italic'') (preventDefault w)
     else if isTab E kc alt ctrl meta then
       execCommand editor ''keyTab'' (EventPayload event) w
     else if isUndo E kc shift meta ctrl then
       execCommand editor ''undo'' NoPayload (preventDefault w)
     else if isRedo E kc shift meta ctrl then
       execCommand editor ''redo'' NoPayload (preventDefault w)
     else w)"

section \<open>Selection change of one editor, and the click correction\<close>

definition onSelectionChange :: "editor \<Rightarrow> bool \<Rightarrow> world \<Rightarrow> world" where
  "onSelectionChange editor isActive w =
    (if \<not> isActive then setSelection editor None w
     else
       let w1 =
         (case selection w editor of
            None \<Rightarrow> w
          | Some sel \<Rightarrow>
              if isCollapsed sel then
                (if point_type (anchor sel) = ''text'' then
                   writeSelection editor (sel\<lparr>format := getFormat (getNode (anchor sel))\<rparr>) w
                 else if point_type (anchor sel) = ''element'' then
                   writeSelection editor (sel\<lparr>format := 0\<rparr>) w
                 else w)
              else w)
       in execCommand editor ''selectionChange'' NoPayload w1)"

definition onClick :: "environment \<Rightarrow> event \<Rightarrow> editor \<Rightarrow> world \<Rightarrow> outcome" where
  "onClick E event editor w =
    (case selection w editor of
       None \<Rightarrow> Inr w
     | Some sel \<Rightarrow>
         if point_type (anchor sel) = ''element'' \<and> offset (anchor sel) = 0 \<and> isCollapsed sel \<and>
            rootChildrenSize w editor = 1
         then
           (case topLevelElementIsEmpty (getNode (anchor sel)) of
              None \<Rightarrow> Inl (InvariantError, w)
            | Some isEmpty \<Rightarrow>
                if isEmpty then
                  (case editorStateSelection w editor of
                     None \<Rightarrow> Inr w
                   | Some lastSelection \<Rightarrow>
                       if selection_is E sel lastSelection then
                         Inr (writeSelection editor (sel\<lparr>dirty := True\<rparr>) (removeAllRanges w))
                       else Inr w)
                else Inr w)
         else Inr w)"

section \<open>The pre-commit input table\<close>

definition applyTargetRange :: "environment \<Rightarrow> range_selection \<Rightarrow> event \<Rightarrow> range_selection" where
  "applyTargetRange E sel event =
    (case getTargetRanges event of
       None \<Rightarrow> sel
     | Some ranges \<Rightarrow>
         (case ranges of [] \<Rightarrow> sel | targetRange # _ \<Rightarrow> applyDOMRange E sel targetRange))"

definition canRemoveText :: "lexical_node \<Rightarrow> lexical_node \<Rightarrow> bool" where
  "canRemoveText anchorNode focusNode =
    (anchorNode \<noteq> focusNode \<or> isElementNode anchorNode \<or> isElementNode focusNode \<or>
     \<not> isTokenOrInert anchorNode \<or> \<not> isTokenOrInert focusNode)"

text \<open>The \<^verbatim>\<open>switch\<close> of \<open>onBeforeInput\<close>, after its \<^verbatim>\<open>event.preventDefault()\<close>.\<close>

definition inputTypeSwitch ::
  "string \<Rightarrow> event \<Rightarrow> editor \<Rightarrow> lexical_node \<Rightarrow> lexical_node \<Rightarrow> world \<Rightarrow> world" where
  "inputTypeSwitch t event editor anchorNode focusNode w =
    (if t = ''insertFromYank'' \<or> t = ''insertFromDrop'' \<or> t = ''insertReplacementText'' then
       execCommand editor ''insertText'' (EventPayload event) w
     else if t = ''insertFromComposition'' then
       execCommand editor ''insertText'' (EventPayload event) (setCompositionKey editor None w)
     else if t = ''insertLineBreak'' then
       execCommand editor ''insertLineBreak'' NoPayload (setCompositionKey editor None w)
     else if t = ''insertParagraph'' then
       execCommand editor ''insertParagraph'' NoPayload (setCompositionKey editor None w)
     else if t = ''insertFromPaste'' \<or> t = ''insertFromPasteAsQuotation'' then
       execCommand editor ''paste'' (EventPayload event) w
     else if t = ''deleteByComposition'' then
       (if canRemoveText anchorNode focusNode then execCommand editor ''removeText'' NoPayload w
        else w)
     else if t = ''deleteByDrag'' \<or> t = ''deleteByCut'' then
       execCommand editor ''removeText'' NoPayload w
     else if t = ''deleteContent'' then
       execCommand editor ''deleteCharacter'' (BoolPayload False) w
     else if t = ''deleteWordBackward'' then
       execCommand editor ''deleteWord'' (BoolPayload True) w
     else if t = ''deleteWordForward'' then
       execCommand editor ''deleteWord'' (BoolPayload False) w
     else if t = ''deleteHardLineBackward'' \<or> t = ''deleteSoftLineBackward'' then
       execCommand editor ''deleteLine'' (BoolPayload True) w
     else if t = ''deleteContentForward'' \<or> t = ''deleteHardLineForward'' \<or>
             t = ''deleteSoftLineForward'' then
       execCommand editor ''deleteLine'' (BoolPayload False) w
     else if t = ''formatStrikeThrough'' then
       execCommand editor ''formatText'' (StringPayload ''strikethrough'') w
     else if t = ''formatBold'' then
       execCommand editor ''formatText'' (StringPayload ''bold'') w
     else if t = ''formatItalic'' then
       execCommand editor ''formatText'' (StringPayload ''italic'') w
     else if t = ''formatUnderline'' then
       execCommand editor ''formatText'' (StringPayload ''underline'') w
     else if t = ''historyUndo'' then
       execCommand editor ''undo'' NoPayload w
     else if t = ''historyRedo'' then
       execCommand editor ''redo'' NoPayload w
     else w)"

text \<open>The branch of \<open>onBeforeInput\<close> for the input type \<^verbatim>\<open>insertText\<close>.\<close>

definition insertTextBranch ::
  "environment \<Rightarrow> event \<Rightarrow> editor \<Rightarrow> range_selection \<Rightarrow> world \<Rightarrow> world" where
  "insertTextBranch E event editor sel w =
    (if data event = Some [CHR 0x0A] then
       execCommand editor ''insertLineBreak'' NoPayload (preventDefault w)
     else if data event = Some [CHR 0x0A, CHR 0x0A] then
       execCommand editor ''insertParagraph'' NoPayload (preventDefault w)
     else if data event = None \<and> dataTransfer event \<noteq> None then
       emit (InsertRawText editor (the (dataTransfer event))) (preventDefault w)
     else if data event \<noteq> None \<and>
             shouldPreventDefaultAndInsertText E sel (the (data event)) True then
       execCommand editor ''insertText'' (StringPayload (the (data event))) (preventDefault w)
     else w)"

definition onBeforeInput :: "environment \<Rightarrow> event \<Rightarrow> editor \<Rightarrow> world \<Rightarrow> world" where
  "onBeforeInput E event editor w =
    (if inputType event = ''deleteCompositionText'' \<or> inputType event = ''insertCompositionText''
     then w
     else
       (case selection w editor of
          None \<Rightarrow> w
        | Some selection0 \<Rightarrow>
            if inputType event = ''deleteContentBackward'' then
              execCommand editor ''deleteCharacter'' (BoolPayload True)
                (preventDefault (setCompositionKey editor None w))
            else
              let sel =
                    (if \<not> dirty selection0 \<and> isCollapsed selection0 \<and>
                        \<not> isRootNode (getNode (anchor selection0))
                     then applyTargetRange E selection0 event else selection0);
                  w1 = writeSelection editor sel w;
                  anchorNode = getNode (anchor sel);
                  focusNode = getNode (focus sel)
              in
              if inputType event = ''insertText'' then insertTextBranch E event editor sel w1
              else
                inputTypeSwitch (inputType event) event editor anchorNode focusNode
                  (preventDefault w1)))"

definition onInput :: "environment \<Rightarrow> event \<Rightarrow> editor \<Rightarrow> world \<Rightarrow> world" where
  "onInput E event editor w0 =
    (let w = stopPropagation w0;
         w1 =
           (if data event \<noteq> None \<and> selection w editor \<noteq> None \<and>
               shouldPreventDefaultAndInsertText E (the (selection w editor)) (the (data event)) False
            then execCommand editor ''insertText'' (StringPayload (the (data event))) w
            else emit (UpdateSelectedTextFromDOM editor False) w)
     in emit (FlushMutations editor) w1)"

section \<open>Composition\<close>

definition onCompositionStart :: "event \<Rightarrow> editor \<Rightarrow> world \<Rightarrow> world" where
  "onCompositionStart event editor w =
    (case selection w editor of
       None \<Rightarrow> w
     | Some sel \<Rightarrow>
         if \<not> isComposing editor w then
           let w1 = setCompositionKey editor (Some (point_key (anchor sel))) w in
           if \<not> lastKeyWasMaybeAndroidSoftKey w1 \<or> point_type (anchor sel) = ''element'' \<or>
              \<not> isCollapsed sel
           then execCommand editor ''insertText'' (StringPayload '' '') w1
           else w1
         else w)"

definition onCompositionEndInternal :: "event \<Rightarrow> editor \<Rightarrow> world \<Rightarrow> world" where
  "onCompositionEndInternal event editor w =
     emit (UpdateSelectedTextFromDOM editor True) (setCompositionKey editor None w)"

text \<open>\<^verbatim>\<open>setTimeout(f, 0)\<close>: the callback joins the pending timers.\<close>

definition setTimeout :: "task \<Rightarrow> world \<Rightarrow> world" where
  "setTimeout f w = w\<lparr>timers := timers w @ [f]\<rparr>"

definition onCompositionEnd :: "environment \<Rightarrow> event \<Rightarrow> editor \<Rightarrow> world \<Rightarrow> world" where
  "onCompositionEnd E event editor w =
    (if IS_FIREFOX E then setTimeout (CompositionEndTask event editor) w
     else onCompositionEndInternal event editor w)"

text \<open>
  The platform runs a pending timer callback in a later turn of its event queue, after
  the events of the current turn have been dispatched.
\<close>

fun runTask :: "task \<Rightarrow> world \<Rightarrow> world" where
  "runTask (CompositionEndTask event editor) w = onCompositionEndInternal event editor w"

definition runTimers :: "world \<Rightarrow> world" where
  "runTimers w = fold runTask (timers w) (w\<lparr>timers := []\<rparr>)"

section \<open>Selection change arbitration\<close>

text \<open>
  Modelled from the spec: \<^verbatim>\<open>getEditorsToPropagate\<close> is a function of
  \<^verbatim>\<open>LexicalUtils\<close>, outside the module. The spec has it walk the parent-editor links to
  the top: the editor itself first, its root last.
\<close>

fun getEditorsToPropagate :: "editor \<Rightarrow> editor list" where
  "getEditorsToPropagate (Editor i k None) = [Editor i k None]"
| "getEditorsToPropagate (Editor i k (Some p)) = Editor i k (Some p) # getEditorsToPropagate p"

text \<open>
  The body of the loop of \<open>onDocumentSelectionChange\<close> once the walk has found the
  editor of an editable ancestor.
\<close>

definition propagateSelectionChange :: "editor \<Rightarrow> world \<Rightarrow> world" where
  "propagateSelectionChange nextActiveEditor w =
    (let editors = getEditorsToPropagate nextActiveEditor;
         rootEditor = last editors;
         rootEditorKey = editor_key rootEditor;
         activeNestedEditor = activeNestedEditorsMap w rootEditorKey;
         prevActiveEditor = (case activeNestedEditor of None \<Rightarrow> rootEditor | Some e \<Rightarrow> e);
         w1 = (if prevActiveEditor \<noteq> nextActiveEditor
               then onSelectionChange prevActiveEditor False w else w);
         w2 = onSelectionChange nextActiveEditor True w1
     in
     if nextActiveEditor \<noteq> rootEditor then
       w2\<lparr>activeNestedEditorsMap := (activeNestedEditorsMap w2)(rootEditorKey \<mapsto> nextActiveEditor)\<rparr>
     else if activeNestedEditor \<noteq> None then
       w2\<lparr>activeNestedEditorsMap := (activeNestedEditorsMap w2)(rootEditorKey := None)\<rparr>
     else w2)"

text \<open>
  The upward walk from a node. A node whose \<^verbatim>\<open>__lexicalEditor\<close> is \<^verbatim>\<open>null\<close> (a
  detached root element) passes the test against \<^verbatim>\<open>undefined\<close>; the list of editors
  to propagate is then empty and reading \<^verbatim>\<open>_key\<close> of its last element throws.
\<close>

fun walkFrom :: "dom_node \<Rightarrow> world \<Rightarrow> outcome" where
  "walkFrom (DomNode i p) w =
    (if contentEditable (elements w i) = ''true'' \<and> lexicalEditor (elements w i) \<noteq> Undefined then
       (case lexicalEditor (elements w i) of
          Obj nextActiveEditor \<Rightarrow> Inr (propagateSelectionChange nextActiveEditor w)
        | _ \<Rightarrow> Inl (TypeError, w))
     else (case p of None \<Rightarrow> Inr w | Some n \<Rightarrow> walkFrom n w))"

definition onDocumentSelectionChange :: "world \<Rightarrow> outcome" where
  "onDocumentSelectionChange w =
    (case windowAnchorNode w of None \<Rightarrow> Inr w | Some node \<Rightarrow> walkFrom node w)"

section \<open>Registration and removal of the listeners\<close>

definition rootElementEvents :: "environment \<Rightarrow> (string \<times> on_event) list" where
  "rootElementEvents E =
    [(''keydown'', Handler OnKeyDown),
     (''compositionstart'', Handler OnCompositionStart),
     (''compositionend'', Handler OnCompositionEnd),
     (''input'', Handler OnInput),
     (''click'', Handler OnClick),
     (''cut'', PASS_THROUGH_COMMAND),
     (''copy'', PASS_THROUGH_COMMAND),
     (''dragstart'', PASS_THROUGH_COMMAND),
     (''paste'', PASS_THROUGH_COMMAND),
     (''focus'', PASS_THROUGH_COMMAND),
     (''blur'', PASS_THROUGH_COMMAND)] @
    (if CAN_USE_BEFORE_INPUT E then [(''beforeinput'', Handler OnBeforeInput)]
     else [(''drop'', PASS_THROUGH_COMMAND)])"

definition updateElement :: "nat \<Rightarrow> (root_element \<Rightarrow> root_element) \<Rightarrow> world \<Rightarrow> world" where
  "updateElement r f w = w\<lparr>elements := (elements w)(r := f (elements w r))\<rparr>"

definition isRootEditable :: "editor \<Rightarrow> world \<Rightarrow> bool" where
  "isRootEditable editor w =
    (case getRootElement w editor of
       None \<Rightarrow> False
     | Some rootElement \<Rightarrow> contentEditable (elements w rootElement) = ''true'')"

text \<open>The array is created on the element on first use; the result is the stored array.\<close>

definition getRootElementRemoveHandles :: "nat \<Rightarrow> world \<Rightarrow> remove_handle list \<times> world" where
  "getRootElementRemoveHandles rootElement w =
    (case lexicalEventHandles (elements w rootElement) of
       None \<Rightarrow> ([], updateElement rootElement (\<lambda>x. x\<lparr>lexicalEventHandles := Some []\<rparr>) w)
     | Some eventHandles \<Rightarrow> (eventHandles, w))"

definition clearRootElementRemoveHandles :: "nat \<Rightarrow> world \<Rightarrow> world" where
  "clearRootElementRemoveHandles rootElement w =
     updateElement rootElement (\<lambda>x. x\<lparr>lexicalEventHandles := Some []\<rparr>) w"

text \<open>
  The platform's listener list of an element: a callback is registered at most once per
  event name, and removed by its name and identity.
\<close>

definition addEventListener :: "nat \<Rightarrow> listener \<Rightarrow> world \<Rightarrow> world" where
  "addEventListener rootElement l w =
    (if (eventName l, listener_id l) \<in>
          set (map (\<lambda>x. (eventName x, listener_id x)) (listeners (elements w rootElement)))
     then w
     else updateElement rootElement (\<lambda>x. x\<lparr>listeners := listeners x @ [l]\<rparr>) w)"

definition removeEventListener :: "nat \<Rightarrow> string \<Rightarrow> nat \<Rightarrow> world \<Rightarrow> world" where
  "removeEventListener rootElement name c w =
     updateElement rootElement
       (\<lambda>x. x\<lparr>listeners := filter (\<lambda>l. \<not> (eventName l = name \<and> listener_id l = c)) (listeners x)\<rparr>) w"

text \<open>\<^verbatim>\<open>removeHandles.push(...)\<close> on the array stored on the element.\<close>

definition pushRemoveHandle :: "nat \<Rightarrow> remove_handle \<Rightarrow> world \<Rightarrow> world" where
  "pushRemoveHandle rootElement h w =
     updateElement rootElement
       (\<lambda>x. x\<lparr>lexicalEventHandles :=
                Some ((case lexicalEventHandles x of None \<Rightarrow> [] | Some hs \<Rightarrow> hs) @ [h])\<rparr>) w"

text \<open>One iteration of the loop of \<open>addRootElementEvents\<close>: a fresh closure per entry.\<close>

definition registerEvent :: "nat \<Rightarrow> editor \<Rightarrow> string \<times> on_event \<Rightarrow> world \<Rightarrow> world" where
  "registerEvent rootElement editor entry w =
    (let c = nextClosure w;
         eventHandler = \<lparr>listener_id = c, eventName = fst entry, onEvent = snd entry,
                         listener_editor = editor\<rparr>;
         w1 = addEventListener rootElement eventHandler (w\<lparr>nextClosure := c + 1\<rparr>)
     in pushRemoveHandle rootElement
          \<lparr>handle_element = rootElement, handle_eventName = fst entry, handle_listener = c\<rparr> w1)"

definition addRootElementEvents :: "environment \<Rightarrow> nat \<Rightarrow> editor \<Rightarrow> world \<Rightarrow> world" where
  "addRootElementEvents E rootElement editor w =
     fold (registerEvent rootElement editor) (rootElementEvents E)
       (snd (getRootElementRemoveHandles rootElement w))"

definition addDocumentSelectionChangeEvent :: "nat \<Rightarrow> editor \<Rightarrow> world \<Rightarrow> world" where
  "addDocumentSelectionChangeEvent rootElement editor w =
    (let doc = ownerDocument (elements w rootElement);
         w1 = updateElement rootElement (\<lambda>x. x\<lparr>lexicalEditor := Obj editor\<rparr>) w
     in if \<not> lexicalEvent w1 doc
        then w1\<lparr>lexicalEvent := (lexicalEvent w1)(doc := True),
                selectionchange := (selectionchange w1)(doc := True)\<rparr>
        else w1)"

text \<open>Reading \<^verbatim>\<open>_parentEditor\<close> of \<^verbatim>\<open>undefined\<close> or \<^verbatim>\<open>null\<close> throws.\<close>

definition cleanActiveNestedEditorsMap :: "editor jsref \<Rightarrow> world \<Rightarrow> outcome" where
  "cleanActiveNestedEditorsMap r w =
    (case r of
       Obj editor \<Rightarrow>
         if parentEditor editor \<noteq> None then
           (let editors = getEditorsToPropagate editor;
                rootEditor = last editors;
                rootEditorKey = editor_key rootEditor
            in if activeNestedEditorsMap w rootEditorKey = Some editor
               then Inr (w\<lparr>activeNestedEditorsMap := (activeNestedEditorsMap w)(rootEditorKey := None)\<rparr>)
               else Inr w)
         else Inr (w\<lparr>activeNestedEditorsMap := (activeNestedEditorsMap w)(editor_key editor := None)\<rparr>)
     | _ \<Rightarrow> Inl (TypeError, w))"

definition runRemoveHandle :: "remove_handle \<Rightarrow> world \<Rightarrow> world" where
  "runRemoveHandle h w =
     removeEventListener (handle_element h) (handle_eventName h) (handle_listener h) w"

definition removeRootElementEvents :: "nat \<Rightarrow> world \<Rightarrow> outcome" where
  "removeRootElementEvents rootElement w =
    (case cleanActiveNestedEditorsMap (lexicalEditor (elements w rootElement)) w of
       Inl x \<Rightarrow> Inl x
     | Inr w1 \<Rightarrow>
         let w2 = updateElement rootElement (\<lambda>x. x\<lparr>lexicalEditor := Null\<rparr>) w1;
             removeHandles = fst (getRootElementRemoveHandles rootElement w2);
             w3 = snd (getRootElementRemoveHandles rootElement w2);
             w4 = fold runRemoveHandle removeHandles w3
         in Inr (clearRootElementRemoveHandles rootElement w4))"

section \<open>The platform: dispatch of events, turns of the event queue\<close>

definition runHandler :: "environment \<Rightarrow> handler \<Rightarrow> event \<Rightarrow> editor \<Rightarrow> world \<Rightarrow> outcome" where
  "runHandler E h event editor w =
    (case h of
       OnKeyDown \<Rightarrow> Inr (onKeyDown E event editor w)
     | OnCompositionStart \<Rightarrow> Inr (onCompositionStart event editor w)
     | OnCompositionEnd \<Rightarrow> Inr (onCompositionEnd E event editor w)
     | OnInput \<Rightarrow> Inr (onInput E event editor w)
     | OnClick \<Rightarrow> onClick E event editor w
     | OnBeforeInput \<Rightarrow> Inr (onBeforeInput E event editor w))"

text \<open>The closure \<^verbatim>\<open>eventHandler\<close> of \<open>addRootElementEvents\<close>, called with an event.\<close>

definition eventHandler :: "environment \<Rightarrow> listener \<Rightarrow> event \<Rightarrow> world \<Rightarrow> outcome" where
  "eventHandler E l event w =
    (if isRootEditable (listener_editor l) w then
       (case onEvent l of
          Handler h \<Rightarrow> runHandler E h event (listener_editor l) w
        | PASS_THROUGH_COMMAND \<Rightarrow>
            Inr (execCommand (listener_editor l) (eventName l) (EventPayload event) w))
     else Inr w)"

text \<open>An exception that leaves a listener is reported by the platform; the world stays as it was left.\<close>

text \<open>The world a call leaves behind, whether it returned or threw.\<close>

definition world_after :: "outcome \<Rightarrow> world" where
  "world_after r = (case r of Inl (e, w) \<Rightarrow> w | Inr w \<Rightarrow> w)"

definition reported :: "outcome \<Rightarrow> world" where
  "reported r = (case r of Inl (e, w) \<Rightarrow> emit (UncaughtError e) w | Inr w \<Rightarrow> w)"

text \<open>
  The platform calls the listeners registered on the element under the event's type, in
  registration order.
\<close>

definition dispatchEvent :: "environment \<Rightarrow> nat \<Rightarrow> event \<Rightarrow> world \<Rightarrow> world" where
  "dispatchEvent E rootElement event w =
     fold (\<lambda>l w'. reported (eventHandler E l event w'))
       (filter (\<lambda>l. eventName l = event_type event) (listeners (elements w rootElement))) w"

text \<open>
  What the embedding application and the platform can do, one step at a time: a
  selection-change notification of a document after the platform's selection has moved to
  an anchor node, the three exported functions, an event dispatched on an element, and a
  turn of the event queue that runs the pending timers.
\<close>

datatype action =
    SelectionChange nat "dom_node option"
  | AddDocumentSelectionChangeEvent nat editor
  | AddRootElementEvents nat editor
  | RemoveRootElementEvents nat
  | DispatchEvent nat event
  | RunTimers

definition step :: "environment \<Rightarrow> action \<Rightarrow> world \<Rightarrow> world" where
  "step E a w =
    (case a of
       SelectionChange doc node \<Rightarrow>
         (if selectionchange w doc
          then reported (onDocumentSelectionChange (w\<lparr>windowAnchorNode := node\<rparr>))
          else w\<lparr>windowAnchorNode := node\<rparr>)
     | AddDocumentSelectionChangeEvent rootElement editor \<Rightarrow>
         addDocumentSelectionChangeEvent rootElement editor w
     | AddRootElementEvents rootElement editor \<Rightarrow> addRootElementEvents E rootElement editor w
     | RemoveRootElementEvents rootElement \<Rightarrow> reported (removeRootElementEvents rootElement w)
     | DispatchEvent rootElement event \<Rightarrow> dispatchEvent E rootElement event w
     | RunTimers \<Rightarrow> runTimers w)"

definition run :: "environment \<Rightarrow> action list \<Rightarrow> world \<Rightarrow> world" where
  "run E as w = fold (step E) as w"

section \<open>The keyboard table as the specification words it\<close>

text \<open>
  The specification describes keyboard translation as an ordered list of pairs of a
  predicate and a command, evaluated top to bottom against the tuple of key code, ctrl,
  shift, alt and meta, where the first matching predicate wins. The definitions of this
  section follow those words; \<open>onKeyDown\<close> above follows the source.
\<close>

type_synonym key_tuple = "nat \<times> bool \<times> bool \<times> bool \<times> bool"

definition key_tuple_of :: "event \<Rightarrow> key_tuple" where
  "key_tuple_of event = (keyCode event, ctrlKey event, shiftKey event, altKey event, metaKey event)"

text \<open>The payload of a translated command: the raw event, a flag, a string or nothing.\<close>

datatype key_payload = RawEvent | Flag bool | Str string | Nothing

text \<open>
  A translated command: whether \<^verbatim>\<open>preventDefault\<close> is called first, the command's name,
  and its payload.
\<close>

type_synonym key_command = "bool \<times> string \<times> key_payload"

definition keyboardTable :: "environment \<Rightarrow> ((key_tuple \<Rightarrow> bool) \<times> (key_tuple \<Rightarrow> key_command)) list" where
  "keyboardTable E =
    [(\<lambda>(kc, ctrl, shift, alt, meta). isMoveForward E kc ctrl shift alt meta,
        \<lambda>_. (False, ''keyArrowRight'', RawEvent)),
     (\<lambda>(kc, ctrl, shift, alt, meta). isMoveBackward E kc ctrl shift alt meta,
        \<lambda>_. (False, ''keyArrowLeft'', RawEvent)),
     (\<lambda>(kc, ctrl, shift, alt, meta). isMoveUp E kc ctrl shift alt meta,
        \<lambda>_. (False, ''keyArrowUp'', RawEvent)),
     (\<lambda>(kc, ctrl, shift, alt, meta). isMoveDown E kc ctrl shift alt meta,
        \<lambda>_. (False, ''keyArrowDown'', RawEvent)),
     (\<lambda>(kc, ctrl, shift, alt, meta). isLineBreak E kc shift,
        \<lambda>_. (False, ''keyEnter'', RawEvent)),
     (\<lambda>(kc, ctrl, shift, alt, meta). isOpenLineBreak E kc ctrl,
        \<lambda>_. (True, ''insertLineBreak'', Flag True)),
     (\<lambda>(kc, ctrl, shift, alt, meta). isParagraph E kc shift,
        \<lambda>_. (False, ''keyEnter'', RawEvent)),
     (\<lambda>(kc, ctrl, shift, alt, meta). isDeleteBackward E kc alt meta ctrl,
        \<lambda>(kc, ctrl, shift, alt, meta).
          if isBackspace E kc then (False, ''keyBackspace'', RawEvent)
          else (False, ''deleteCharacter'', Flag True)),
     (\<lambda>(kc, ctrl, shift, alt, meta). isEscape E kc,
        \<lambda>_. (False, ''keyEscape'', RawEvent)),
     (\<lambda>(kc, ctrl, shift, alt, meta). isDeleteForward E kc ctrl shift alt meta,
        \<lambda>(kc, ctrl, shift, alt, meta).
          if isDelete E kc then (False, ''keyDelete'', RawEvent)
          else (True, ''deleteCharacter'', Flag False)),
     (\<lambda>(kc, ctrl, shift, alt, meta). isDeleteWordBackward E kc alt ctrl,
        \<lambda>_. (True, ''deleteWord'', Flag True)),
     (\<lambda>(kc, ctrl, shift, alt, meta). isDeleteWordForward E kc alt ctrl,
        \<lambda>_. (True, ''deleteWord'', Flag False)),
     (\<lambda>(kc, ctrl, shift, alt, meta). isDeleteLineBackward E kc meta,
        \<lambda>_. (True, ''deleteLine'', Flag True)),
     (\<lambda>(kc, ctrl, shift, alt, meta). isDeleteLineForward E kc meta,
        \<lambda>_. (True, ''deleteLine'', Flag False)),
     (\<lambda>(kc, ctrl, shift, alt, meta). isBold E kc meta ctrl,
        \<lambda>_. (True, ''formatText'', Str ''bold'')),
     (\<lambda>(kc, ctrl, shift, alt, meta). isUnderline E kc meta ctrl,
        \<lambda>_. (True, ''formatText'', Str ''underline'')),
     (\<lambda>(kc, ctrl, shift, alt, meta). isItalic E kc meta ctrl,
        \<lambda>_. (True, ''formatText'', Str ''italic'')),
     (\<lambda>(kc, ctrl, shift, alt, meta). isTab E kc alt ctrl meta,
        \<lambda>_. (False, ''keyTab'', RawEvent)),
     (\<lambda>(kc, ctrl, shift, alt, meta). isUndo E kc shift meta ctrl,
        \<lambda>_. (True, ''undo'', Nothing)),
     (\<lambda>(kc, ctrl, shift, alt, meta). isRedo E kc shift meta ctrl,
        \<lambda>_. (True, ''redo'', Nothing))]"

text \<open>First match wins: the rows are tried in order and translation stops at the first hit.\<close>

fun firstMatch :: "(('a \<Rightarrow> bool) \<times> ('a \<Rightarrow> 'b)) list \<Rightarrow> 'a \<Rightarrow> 'b option" where
  "firstMatch [] t = None"
| "firstMatch ((p, c) # rows) t = (if p t then Some (c t) else firstMatch rows t)"

text \<open>The effects of dispatching a translated command for a raw event to an editor.\<close>

fun dispatched :: "editor \<Rightarrow> event \<Rightarrow> key_command option \<Rightarrow> effect list" where
  "dispatched editor event None = []"
| "dispatched editor event (Some (prevent, name, p)) =
     (if prevent then [PreventDefault] else []) @
     [ExecCommand editor name
        (case p of RawEvent \<Rightarrow> EventPayload event | Flag b \<Rightarrow> BoolPayload b
         | Str s \<Rightarrow> StringPayload s | Nothing \<Rightarrow> NoPayload)]"

section \<open>The selection walk and the map's invariant as the specification words them\<close>

text \<open>
  The specification has the arbitration walk upward from the anchor node of the platform's
  selection until it finds a node that is both editable and tagged with an editor
  reference. \<open>taggedAncestor\<close> is the tag of that node, \<open>None\<close> when there is no such node.
\<close>

fun taggedAncestor :: "dom_node \<Rightarrow> world \<Rightarrow> editor jsref option" where
  "taggedAncestor (DomNode i p) w =
    (if contentEditable (elements w i) = ''true'' \<and> lexicalEditor (elements w i) \<noteq> Undefined
     then Some (lexicalEditor (elements w i))
     else (case p of None \<Rightarrow> None | Some n \<Rightarrow> taggedAncestor n w))"

text \<open>The root of an editor: the top of its chain of parent editors.\<close>

definition rootOf :: "editor \<Rightarrow> editor" where
  "rootOf editor = last (getEditorsToPropagate editor)"


section \<open>The listeners of one attach\<close>

text \<open>
  The closures that one run of the loop of \<open>addRootElementEvents\<close> creates for an editor
  from the entries of the table, when the next fresh closure identity is \<open>c\<close>.
\<close>

fun closures :: "nat \<Rightarrow> editor \<Rightarrow> (string \<times> on_event) list \<Rightarrow> listener list" where
  "closures c editor [] = []"
| "closures c editor (entry # entries) =
     \<lparr>listener_id = c, eventName = fst entry, onEvent = snd entry, listener_editor = editor\<rparr> #
     closures (Suc c) editor entries"

text \<open>The removal handle that the loop pushes for a closure registered on an element.\<close>

definition handle_of :: "nat \<Rightarrow> listener \<Rightarrow> remove_handle" where
  "handle_of rootElement l =
    \<lparr>handle_element = rootElement, handle_eventName = eventName l,
     handle_listener = listener_id l\<rparr>"

section \<open>Concrete inputs\<close>

text \<open>
  An example platform: arrows, Enter, Backspace, Delete, Escape and Tab under their usual
  key codes, ctrl-based shortcuts, no line shortcuts. Backspace with ctrl satisfies both
  \<open>isDeleteBackward\<close> and \<open>isDeleteWordBackward\<close>.
\<close>

definition example_environment :: environment where
  "example_environment =
    \<lparr>CAN_USE_BEFORE_INPUT = True,
     IS_FIREFOX = False,
     isMoveForward = (\<lambda>kc ctrl shift alt meta. kc = 39 \<and> \<not> ctrl \<and> \<not> alt \<and> \<not> meta),
     isMoveBackward = (\<lambda>kc ctrl shift alt meta. kc = 37 \<and> \<not> ctrl \<and> \<not> alt \<and> \<not> meta),
     isMoveUp = (\<lambda>kc ctrl shift alt meta. kc = 38 \<and> \<not> ctrl \<and> \<not> meta),
     isMoveDown = (\<lambda>kc ctrl shift alt meta. kc = 40 \<and> \<not> ctrl \<and> \<not> meta),
     isLineBreak = (\<lambda>kc shift. kc = 13 \<and> shift),
     isOpenLineBreak = (\<lambda>kc ctrl. False),
     isParagraph = (\<lambda>kc shift. kc = 13 \<and> \<not> shift),
     isDeleteBackward = (\<lambda>kc alt meta ctrl. kc = 8),
     isBackspace = (\<lambda>kc. kc = 8),
     isEscape = (\<lambda>kc. kc = 27),
     isDeleteForward = (\<lambda>kc ctrl shift alt meta. kc = 46 \<and> \<not> ctrl \<and> \<not> shift \<and> \<not> alt \<and> \<not> meta),
     isDelete = (\<lambda>kc. kc = 46),
     isDeleteWordBackward = (\<lambda>kc alt ctrl. kc = 8 \<and> ctrl),
     isDeleteWordForward = (\<lambda>kc alt ctrl. kc = 46 \<and> ctrl),
     isDeleteLineBackward = (\<lambda>kc meta. False),
     isDeleteLineForward = (\<lambda>kc meta. False),
     isBold = (\<lambda>kc meta ctrl. kc = 66 \<and> ctrl),
     isUnderline = (\<lambda>kc meta ctrl. kc = 85 \<and> ctrl),
     isItalic = (\<lambda>kc meta ctrl. kc = 73 \<and> ctrl),
     isTab = (\<lambda>kc alt ctrl meta. kc = 9 \<and> \<not> alt \<and> \<not> ctrl \<and> \<not> meta),
     isUndo = (\<lambda>kc shift meta ctrl. kc = 90 \<and> \<not> shift \<and> ctrl),
     isRedo = (\<lambda>kc shift meta ctrl. kc = 89 \<and> ctrl),
     shouldPreventDefaultAndInsertText = (\<lambda>sel text isBeforeInput. True),
     applyDOMRange = (\<lambda>sel r. sel),
     selection_is = (\<lambda>a b. a = b)\<rparr>"

definition firefox_environment :: environment where
  "firefox_environment = example_environment\<lparr>IS_FIREFOX := True\<rparr>"

text \<open>A root editor and two editors nested in it.\<close>

definition root_editor :: editor where
  "root_editor = Editor 0 ''root'' None"

definition nested_a :: editor where
  "nested_a = Editor 1 ''a'' (Some root_editor)"

definition nested_b :: editor where
  "nested_b = Editor 2 ''b'' (Some root_editor)"

text \<open>An event of a given type with no key pressed and no data.\<close>

definition plain_event :: "string \<Rightarrow> event" where
  "plain_event t =
    \<lparr>event_type = t, key = [], keyCode = 0, shiftKey = False, ctrlKey = False,
     metaKey = False, altKey = False, inputType = [], data = None, dataTransfer = None,
     getTargetRanges = None\<rparr>"

definition ctrl_backspace :: event where
  "ctrl_backspace = (plain_event ''keydown'')\<lparr>key := ''Backspace'', keyCode := 8, ctrlKey := True\<rparr>"

text \<open>
  A page in which every element is editable and untouched by the module, every editor has
  the element of its own number as root element, and no editor has a selection.
\<close>

definition fresh_element :: root_element where
  "fresh_element =
    \<lparr>contentEditable = ''true'', ownerDocument = 0, lexicalEditor = Undefined,
     lexicalEventHandles = None, listeners = []\<rparr>"

definition fresh_world :: world where
  "fresh_world =
    \<lparr>lastKeyWasMaybeAndroidSoftKey = False,
     activeNestedEditorsMap = Map.empty,
     elements = (\<lambda>i. fresh_element),
     lexicalEvent = (\<lambda>d. False),
     selectionchange = (\<lambda>d. False),
     windowAnchorNode = None,
     compositionKey = (\<lambda>e. None),
     selection = (\<lambda>e. None),
     editorStateSelection = (\<lambda>e. None),
     rootChildrenSize = (\<lambda>e. 1),
     getRootElement = (\<lambda>e. Some (editor_id e)),
     timers = [],
     trace = [],
     nextClosure = 0\<rparr>"

text \<open>A plain text node, an atomic (token) text node and an empty top-level paragraph.\<close>

definition text_node :: lexical_node where
  "text_node =
    \<lparr>node_key = ''t1'', isElementNode = False, isRootNode = False, isTokenOrInert = False,
     getFormat = 3, topLevelElementIsEmpty = Some False\<rparr>"

definition token_node :: lexical_node where
  "token_node = text_node\<lparr>node_key := ''t2'', isTokenOrInert := True\<rparr>"

definition paragraph_node :: lexical_node where
  "paragraph_node =
    \<lparr>node_key = ''p1'', isElementNode = True, isRootNode = False, isTokenOrInert = False,
     getFormat = 0, topLevelElementIsEmpty = Some True\<rparr>"

text \<open>The collapsed selection at an offset of a node.\<close>

definition collapsed_at :: "lexical_node \<Rightarrow> nat \<Rightarrow> range_selection" where
  "collapsed_at n i =
    (let p = \<lparr>point_key = node_key n, offset = i,
               point_type = (if isElementNode n then ''element'' else ''text''), getNode = n\<rparr>
     in \<lparr>anchor = p, focus = p, dirty = False, format = 0, isCollapsed = True\<rparr>)"

text \<open>The fresh world, with a selection given to one editor.\<close>

definition world_with_selection :: "editor \<Rightarrow> range_selection \<Rightarrow> world" where
  "world_with_selection editor sel = fresh_world\<lparr>selection := (selection fresh_world)(editor \<mapsto> sel)\<rparr>"

definition before_input :: "string \<Rightarrow> event" where
  "before_input t = (plain_event ''beforeinput'')\<lparr>inputType := t\<rparr>"

text \<open>
  A document whose only block is the empty paragraph, with the selection collapsed at its
  start, as it was when the editor state was last committed.
\<close>

definition empty_document_world :: world where
  "empty_document_world =
    (world_with_selection root_editor (collapsed_at paragraph_node 0))
      \<lparr>editorStateSelection :=
         (editorStateSelection fresh_world)(root_editor \<mapsto> collapsed_at paragraph_node 0),
       windowAnchorNode := Some (DomNode 0 None)\<rparr>"

text \<open>
  A page with the root editor on element 0 and the two nested editors on elements 1 and 2,
  all tracked by the selection listener. The nested editor \<open>nested_a\<close> is the active one;
  the platform's selection now sits in a text node (element 5) below element 2. The editor
  \<open>nested_b\<close> has a collapsed selection in a text node of format 3.
\<close>

definition two_nested_world :: world where
  "two_nested_world =
    fresh_world
      \<lparr>activeNestedEditorsMap := [''root'' \<mapsto> nested_a],
       elements := (\<lambda>i. fresh_element
          \<lparr>contentEditable := (if i < 3 then ''true'' else ''inherit''),
           lexicalEditor := (if i = 0 then Obj root_editor else if i = 1 then Obj nested_a
                             else if i = 2 then Obj nested_b else Undefined)\<rparr>),
       lexicalEvent := (\<lambda>d. True),
       selectionchange := (\<lambda>d. True),
       windowAnchorNode := Some (DomNode 5 (Some (DomNode 2 (Some (DomNode 0 None))))),
       selection := (\<lambda>e. if e = nested_a then Some (collapsed_at paragraph_node 0)
                          else if e = nested_b then Some (collapsed_at text_node 2) else None)\<rparr>"


text \<open>
  The fresh page after the selection listener has been registered for the root editor on
  element 0, and a \<^verbatim>\<open>cut\<close> event.
\<close>

definition tracked_world :: world where
  "tracked_world = addDocumentSelectionChangeEvent 0 root_editor fresh_world"

definition cut_event :: event where
  "cut_event = plain_event ''cut''"

section \<open>Basic facts about the effect trace\<close>

lemma trace_emit [simp]: "trace (emit x w) = trace w @ [x]"
  by (simp add: emit_def)

lemma trace_execCommand [simp]:
  "trace (execCommand editor name p w) = trace w @ [ExecCommand editor name p]"
  by (simp add: execCommand_def)

lemma trace_preventDefault [simp]: "trace (preventDefault w) = trace w @ [PreventDefault]"
  by (simp add: preventDefault_def)

lemma trace_setCompositionKey [simp]:
  "trace (setCompositionKey editor k w) = trace w @ [SetCompositionKey editor k]"
  by (simp add: setCompositionKey_def)

lemma trace_writeSelection [simp]: "trace (writeSelection editor s w) = trace w"
  by (simp add: writeSelection_def)

section \<open>Keyboard translation is a first-match function of the key tuple\<close>

lemma firstMatch_Some_iff:
  "firstMatch rows t = Some c \<longleftrightarrow>
   (\<exists>i < length rows. fst (rows ! i) t \<and> c = snd (rows ! i) t \<and> (\<forall>j < i. \<not> fst (rows ! j) t))"
proof (induction rows)
  case Nil
  then show ?case by simp
next
  case (Cons row rows)
  obtain p k where row: "row = (p, k)" by (cases row)
  show ?case
  proof (cases "p t")
    case True
    have "(\<exists>i < length (row # rows). fst ((row # rows) ! i) t \<and> c = snd ((row # rows) ! i) t \<and>
              (\<forall>j < i. \<not> fst ((row # rows) ! j) t)) \<longleftrightarrow> c = k t" (is "?R \<longleftrightarrow> _")
    proof
      assume ?R
      then obtain i where i: "c = snd ((row # rows) ! i) t" "\<forall>j < i. \<not> fst ((row # rows) ! j) t"
        by blast
      have "i = 0"
      proof (rule ccontr)
        assume "i \<noteq> 0"
        then have "\<not> fst ((row # rows) ! 0) t" using i(2) by blast
        with True row show False by simp
      qed
      with i(1) row show "c = k t" by simp
    next
      assume "c = k t"
      with True row show ?R by (intro exI [of _ 0]) simp
    qed
    with True show ?thesis unfolding row by auto
  next
    case False
    have "(\<exists>i < length rows. fst (rows ! i) t \<and> c = snd (rows ! i) t \<and> (\<forall>j < i. \<not> fst (rows ! j) t))
       \<longleftrightarrow> (\<exists>i < length (row # rows). fst ((row # rows) ! i) t \<and> c = snd ((row # rows) ! i) t \<and>
              (\<forall>j < i. \<not> fst ((row # rows) ! j) t))" (is "?L \<longleftrightarrow> ?R")
    proof
      assume ?L
      then obtain i where i: "i < length rows" "fst (rows ! i) t" "c = snd (rows ! i) t"
        "\<forall>j < i. \<not> fst (rows ! j) t" by blast
      have "\<forall>j < Suc i. \<not> fst ((row # rows) ! j) t"
        using i(4) False row by (auto simp: nth_Cons split: nat.splits)
      with i show ?R by (intro exI [of _ "Suc i"]) simp
    next
      assume ?R
      then obtain i where i: "i < length (row # rows)" "fst ((row # rows) ! i) t"
        "c = snd ((row # rows) ! i) t" "\<forall>j < i. \<not> fst ((row # rows) ! j) t" by blast
      from i(2) False row obtain i' where i': "i = Suc i'" by (cases i) auto
      have "\<forall>j < i'. \<not> fst (rows ! j) t"
        using i(4) i' by (metis Suc_less_eq nth_Cons_Suc)
      with i i' show ?L by (intro exI [of _ i']) simp
    qed
    with False Cons.IH show ?thesis unfolding row by simp
  qed
qed

text \<open>
  C1. While the editor is not composing, the effects of \<open>onKeyDown\<close> are those of
  dispatching the command of the first row of the keyboard table whose predicate holds of
  the tuple (key code, ctrl, shift, alt, meta), or nothing when no row matches. The command
  is a function of that tuple alone: any other event with the same tuple, observed by any
  editor in any world where that editor is not composing, is translated to the same
  command (with its own raw event as payload where the command carries the event).
\<close>

theorem onKeyDown_first_match_of_key_tuple:
  "\<not> isComposing editor w \<Longrightarrow>
   trace (onKeyDown E event editor w) =
     trace w @ dispatched editor event (firstMatch (keyboardTable E) (key_tuple_of event)) \<and>
   (\<forall>event' editor' w'.
      key_tuple_of event' = key_tuple_of event \<and> \<not> isComposing editor' w' \<longrightarrow>
      trace (onKeyDown E event' editor' w') =
        trace w' @ dispatched editor' event' (firstMatch (keyboardTable E) (key_tuple_of event)))"
proof -
  have chain: "trace (onKeyDown E ev ed v) =
      trace v @ dispatched ed ev (firstMatch (keyboardTable E) (key_tuple_of ev))"
    if "\<not> isComposing ed v" for ev ed v
    using that
    by (simp add: onKeyDown_def Let_def updateAndroidSoftKeyFlagIfAny_def isComposing_def
        keyboardTable_def key_tuple_of_def)
  assume "\<not> isComposing editor w"
  then show ?thesis
    using chain by metis
qed

theorem onKeyDown_first_match_of_key_tuple_witness:
  "\<not> isComposing root_editor fresh_world \<and>
   isDeleteBackward example_environment 8 False False True \<and>
   isDeleteWordBackward example_environment 8 False True \<and>
   trace (onKeyDown example_environment ctrl_backspace root_editor fresh_world) =
     [ExecCommand root_editor ''keyBackspace'' (EventPayload ctrl_backspace)]"
proof -
  have idle: "\<not> isComposing root_editor fresh_world"
    by (simp add: isComposing_def fresh_world_def)
  have "firstMatch (keyboardTable example_environment) (key_tuple_of ctrl_backspace) =
      Some (False, ''keyBackspace'', RawEvent)"
    by (simp add: keyboardTable_def key_tuple_of_def ctrl_backspace_def plain_event_def
        example_environment_def)
  moreover have "trace fresh_world = []"
    by (simp add: fresh_world_def)
  ultimately show ?thesis
    using onKeyDown_first_match_of_key_tuple [OF idle, of example_environment ctrl_backspace] idle
    by (simp add: example_environment_def)
qed

section \<open>The pre-commit input table\<close>

text \<open>
  C7. A pre-commit event of input type \<^verbatim>\<open>deleteWordBackward\<close>, observed while the editor
  has a selection, calls \<^verbatim>\<open>preventDefault\<close> on the raw event and then issues exactly one
  command, \<^verbatim>\<open>deleteWord\<close> with payload \<^verbatim>\<open>true\<close>; these are its only effects.
\<close>

theorem onBeforeInput_deleteWordBackward:
  "inputType event = ''deleteWordBackward'' \<Longrightarrow> selection w editor = Some sel \<Longrightarrow>
   trace (onBeforeInput E event editor w) =
     trace w @ [PreventDefault, ExecCommand editor ''deleteWord'' (BoolPayload True)]"
  by (simp add: onBeforeInput_def inputTypeSwitch_def Let_def)

theorem onBeforeInput_deleteWordBackward_witness:
  "inputType (before_input ''deleteWordBackward'') = ''deleteWordBackward'' \<and>
   selection (world_with_selection root_editor (collapsed_at text_node 2)) root_editor =
     Some (collapsed_at text_node 2) \<and>
   trace (onBeforeInput example_environment (before_input ''deleteWordBackward'') root_editor
            (world_with_selection root_editor (collapsed_at text_node 2))) =
     [PreventDefault, ExecCommand root_editor ''deleteWord'' (BoolPayload True)]"
proof -
  have t: "inputType (before_input ''deleteWordBackward'') = ''deleteWordBackward''"
    by (simp add: before_input_def)
  have s: "selection (world_with_selection root_editor (collapsed_at text_node 2)) root_editor =
      Some (collapsed_at text_node 2)"
    by (simp add: world_with_selection_def)
  have "trace (world_with_selection root_editor (collapsed_at text_node 2)) = []"
    by (simp add: world_with_selection_def fresh_world_def)
  then show ?thesis
    using onBeforeInput_deleteWordBackward [OF t s, of example_environment] t s by simp
qed

text \<open>
  The removability guard refuses exactly the pair of a node with itself where the node is
  a non-element node that is token or inert.
\<close>

lemma canRemoveText_iff:
  "canRemoveText a f \<longleftrightarrow> \<not> (a = f \<and> \<not> isElementNode a \<and> isTokenOrInert a)"
  by (auto simp: canRemoveText_def)

text \<open>
  C6, as the code has it. A pre-commit event of input type \<^verbatim>\<open>deleteByComposition\<close>
  observed while the editor has no selection does nothing at all. Observed while the editor
  has a selection, it calls \<^verbatim>\<open>preventDefault\<close> and then, reading the anchor and focus
  nodes of the selection as the handler leaves it (with the platform's target range applied
  when the selection was clean, collapsed and not anchored in the root), issues no command
  when anchor node and focus node are the same non-element node that is token or inert, and
  exactly one \<^verbatim>\<open>removeText\<close> command in every other case.
\<close>

theorem onBeforeInput_deleteByComposition:
  "inputType event = ''deleteByComposition'' \<Longrightarrow>
   (selection w editor = None \<longrightarrow> onBeforeInput E event editor w = w) \<and>
   (\<forall>selection0. selection w editor = Some selection0 \<longrightarrow>
      (\<exists>sel. selection (onBeforeInput E event editor w) editor = Some sel \<and>
         sel = (if \<not> dirty selection0 \<and> isCollapsed selection0 \<and>
                   \<not> isRootNode (getNode (anchor selection0))
                then applyTargetRange E selection0 event else selection0) \<and>
         trace (onBeforeInput E event editor w) =
           trace w @ PreventDefault #
             (if getNode (anchor sel) = getNode (focus sel) \<and>
                 \<not> isElementNode (getNode (anchor sel)) \<and> isTokenOrInert (getNode (anchor sel))
              then []
              else [ExecCommand editor ''removeText'' NoPayload])))"
proof (intro conjI allI impI)
  assume t: "inputType event = ''deleteByComposition''"
  {
    assume "selection w editor = None"
    with t show "onBeforeInput E event editor w = w"
      by (simp add: onBeforeInput_def)
  }
  fix selection0
  assume s: "selection w editor = Some selection0"
  define sel where "sel = (if \<not> dirty selection0 \<and> isCollapsed selection0 \<and>
                   \<not> isRootNode (getNode (anchor selection0))
                then applyTargetRange E selection0 event else selection0)"
  have run: "onBeforeInput E event editor w =
      (if canRemoveText (getNode (anchor sel)) (getNode (focus sel))
       then execCommand editor ''removeText'' NoPayload (preventDefault (writeSelection editor sel w))
       else preventDefault (writeSelection editor sel w))"
    using t s unfolding sel_def
    by (simp add: onBeforeInput_def inputTypeSwitch_def Let_def)
  have stored: "selection (onBeforeInput E event editor w) editor = Some sel"
    unfolding run
    by (simp add: writeSelection_def execCommand_def preventDefault_def emit_def)
  have effects: "trace (onBeforeInput E event editor w) =
      trace w @ PreventDefault #
        (if getNode (anchor sel) = getNode (focus sel) \<and>
            \<not> isElementNode (getNode (anchor sel)) \<and> isTokenOrInert (getNode (anchor sel))
         then [] else [ExecCommand editor ''removeText'' NoPayload])"
    unfolding run using canRemoveText_iff [of "getNode (anchor sel)" "getNode (focus sel)"]
    by (cases "canRemoveText (getNode (anchor sel)) (getNode (focus sel))") simp_all
  from stored effects show "\<exists>sel. selection (onBeforeInput E event editor w) editor = Some sel \<and>
         sel = (if \<not> dirty selection0 \<and> isCollapsed selection0 \<and>
                   \<not> isRootNode (getNode (anchor selection0))
                then applyTargetRange E selection0 event else selection0) \<and>
         trace (onBeforeInput E event editor w) =
           trace w @ PreventDefault #
             (if getNode (anchor sel) = getNode (focus sel) \<and>
                 \<not> isElementNode (getNode (anchor sel)) \<and> isTokenOrInert (getNode (anchor sel))
              then []
              else [ExecCommand editor ''removeText'' NoPayload])"
    unfolding sel_def by blast
qed

theorem onBeforeInput_deleteByComposition_witness:
  "inputType (before_input ''deleteByComposition'') = ''deleteByComposition'' \<and>
   trace (onBeforeInput example_environment (before_input ''deleteByComposition'') root_editor
            (world_with_selection root_editor (collapsed_at token_node 0))) = [PreventDefault] \<and>
   trace (onBeforeInput example_environment (before_input ''deleteByComposition'') root_editor
            (world_with_selection root_editor (collapsed_at text_node 0))) =
     [PreventDefault, ExecCommand root_editor ''removeText'' NoPayload]"
proof -
  have t: "inputType (before_input ''deleteByComposition'') = ''deleteByComposition''"
    by (simp add: before_input_def)
  have s: "selection (world_with_selection root_editor x) root_editor = Some x" for x
    by (simp add: world_with_selection_def)
  have e: "trace (world_with_selection root_editor x) = []" for x
    by (simp add: world_with_selection_def fresh_world_def)
  have a: "applyTargetRange example_environment x (before_input ''deleteByComposition'') = x" for x
    by (simp add: applyTargetRange_def before_input_def plain_event_def)
  have token: "trace (onBeforeInput example_environment (before_input ''deleteByComposition'')
      root_editor (world_with_selection root_editor (collapsed_at token_node 0))) = [PreventDefault]"
    using onBeforeInput_deleteByComposition [OF t, of
        "world_with_selection root_editor (collapsed_at token_node 0)" root_editor
        example_environment]
    by (simp add: s e a collapsed_at_def token_node_def text_node_def Let_def)
  have plain: "trace (onBeforeInput example_environment (before_input ''deleteByComposition'')
      root_editor (world_with_selection root_editor (collapsed_at text_node 0))) =
      [PreventDefault, ExecCommand root_editor ''removeText'' NoPayload]"
    using onBeforeInput_deleteByComposition [OF t, of
        "world_with_selection root_editor (collapsed_at text_node 0)" root_editor
        example_environment]
    by (simp add: s e a collapsed_at_def text_node_def Let_def)
  from t token plain show ?thesis by simp
qed

text \<open>
  Without the selection the rule does not hold: no anchor and focus node are the same
  atomic node there, and yet no \<^verbatim>\<open>removeText\<close> command is dispatched.
\<close>

theorem deleteByComposition_without_selection_counterexample:
  "inputType (before_input ''deleteByComposition'') = ''deleteByComposition'' \<and>
   selection fresh_world root_editor = None \<and>
   trace (onBeforeInput example_environment (before_input ''deleteByComposition'') root_editor
            fresh_world) = []"
  by (simp add: onBeforeInput_def before_input_def plain_event_def fresh_world_def)

section \<open>Composition\<close>

text \<open>
  C5, as the code has it. A composition-start event observed with a collapsed selection
  whose anchor is a text point, while the editor is not composing and the soft-key flag is
  false, first records the anchor's key as the composition key, which puts the editor in
  the composing state, and then issues exactly one \<^verbatim>\<open>insertText\<close> command with a single
  space; these are its only effects.
\<close>

theorem onCompositionStart_records_key_then_inserts:
  "selection w editor = Some sel \<Longrightarrow> isCollapsed sel \<Longrightarrow> point_type (anchor sel) = ''text'' \<Longrightarrow>
   \<not> isComposing editor w \<Longrightarrow> \<not> lastKeyWasMaybeAndroidSoftKey w \<Longrightarrow>
   trace (onCompositionStart event editor w) =
     trace w @ [SetCompositionKey editor (Some (point_key (anchor sel))),
                ExecCommand editor ''insertText'' (StringPayload '' '')] \<and>
   isComposing editor (onCompositionStart event editor w)"
  by (simp add: onCompositionStart_def Let_def setCompositionKey_def isComposing_def
      execCommand_def emit_def)

theorem onCompositionStart_records_key_then_inserts_witness:
  "selection (world_with_selection root_editor (collapsed_at text_node 2)) root_editor =
     Some (collapsed_at text_node 2) \<and>
   isCollapsed (collapsed_at text_node 2) \<and>
   point_type (anchor (collapsed_at text_node 2)) = ''text'' \<and>
   \<not> isComposing root_editor (world_with_selection root_editor (collapsed_at text_node 2)) \<and>
   \<not> lastKeyWasMaybeAndroidSoftKey (world_with_selection root_editor (collapsed_at text_node 2)) \<and>
   isComposing root_editor
     (onCompositionStart (plain_event ''compositionstart'') root_editor
        (world_with_selection root_editor (collapsed_at text_node 2)))"
proof -
  let ?w = "world_with_selection root_editor (collapsed_at text_node 2)"
  have s: "selection ?w root_editor = Some (collapsed_at text_node 2)"
    by (simp add: world_with_selection_def)
  have c: "isCollapsed (collapsed_at text_node 2)"
    by (simp add: collapsed_at_def Let_def)
  have p: "point_type (anchor (collapsed_at text_node 2)) = ''text''"
    by (simp add: collapsed_at_def Let_def text_node_def)
  have i: "\<not> isComposing root_editor ?w"
    by (simp add: isComposing_def world_with_selection_def fresh_world_def)
  have f: "\<not> lastKeyWasMaybeAndroidSoftKey ?w"
    by (simp add: world_with_selection_def fresh_world_def)
  from onCompositionStart_records_key_then_inserts [OF s c p i f] s c p i f
  show ?thesis by simp
qed

text \<open>
  The order on a concrete input: the composition key is recorded first and the
  \<^verbatim>\<open>insertText\<close> command is issued second, when the editor is composing already.
\<close>

theorem insertText_after_composition_key_counterexample:
  "trace (onCompositionStart (plain_event ''compositionstart'') root_editor
            (world_with_selection root_editor (collapsed_at text_node 2))) =
     [SetCompositionKey root_editor (Some ''t1''),
      ExecCommand root_editor ''insertText'' (StringPayload '' '')]"
  by (simp add: onCompositionStart_def Let_def setCompositionKey_def isComposing_def
      execCommand_def emit_def world_with_selection_def fresh_world_def collapsed_at_def
      text_node_def)

text \<open>
  C8. On Firefox the composition-end handler has no effect of its own: it leaves the
  composition key as it is and queues the reconciliation as a timer callback. When the
  text-input event is handled next and the pending timers run after it, the reconciliation
  (clearing the composition key, then reconciling the text of the surface) comes after
  everything the input handler did. On every other platform the handler performs the
  reconciliation itself, before it returns, and queues nothing.
\<close>

theorem onCompositionEnd_deferred_on_firefox_only:
  "(IS_FIREFOX E \<longrightarrow>
      trace (onCompositionEnd E event editor w) = trace w \<and>
      compositionKey (onCompositionEnd E event editor w) = compositionKey w \<and>
      timers (onCompositionEnd E event editor w) = timers w @ [CompositionEndTask event editor] \<and>
      trace (runTimers (onInput E input editor' (onCompositionEnd E event editor w))) =
        trace (runTimers (onInput E input editor' w)) @
          [SetCompositionKey editor None, UpdateSelectedTextFromDOM editor True]) \<and>
   (\<not> IS_FIREFOX E \<longrightarrow>
      trace (onCompositionEnd E event editor w) =
        trace w @ [SetCompositionKey editor None, UpdateSelectedTextFromDOM editor True] \<and>
      compositionKey (onCompositionEnd E event editor w) editor = None \<and>
      timers (onCompositionEnd E event editor w) = timers w)"
proof (intro conjI impI)
  assume ff: "IS_FIREFOX E"
  let ?t = "CompositionEndTask event editor"
  have deferred: "onCompositionEnd E event editor w = setTimeout ?t w"
    using ff by (simp add: onCompositionEnd_def)
  show "trace (onCompositionEnd E event editor w) = trace w"
    and "compositionKey (onCompositionEnd E event editor w) = compositionKey w"
    and "timers (onCompositionEnd E event editor w) = timers w @ [?t]"
    unfolding deferred by (simp_all add: setTimeout_def)
  have input: "onInput E input editor' (setTimeout ?t w) = setTimeout ?t (onInput E input editor' w)"
    by (simp add: onInput_def Let_def setTimeout_def stopPropagation_def execCommand_def emit_def)
  have "runTimers (setTimeout ?t v) = runTask ?t (runTimers v)" for v
    by (simp add: runTimers_def setTimeout_def)
  then have later: "runTimers (onInput E input editor' (onCompositionEnd E event editor w)) =
      onCompositionEndInternal event editor (runTimers (onInput E input editor' w))"
    unfolding deferred input by simp
  show "trace (runTimers (onInput E input editor' (onCompositionEnd E event editor w))) =
      trace (runTimers (onInput E input editor' w)) @
        [SetCompositionKey editor None, UpdateSelectedTextFromDOM editor True]"
    unfolding later by (simp add: onCompositionEndInternal_def)
next
  assume "\<not> IS_FIREFOX E"
  then have now: "onCompositionEnd E event editor w = onCompositionEndInternal event editor w"
    by (simp add: onCompositionEnd_def)
  show "trace (onCompositionEnd E event editor w) =
      trace w @ [SetCompositionKey editor None, UpdateSelectedTextFromDOM editor True]"
    and "compositionKey (onCompositionEnd E event editor w) editor = None"
    and "timers (onCompositionEnd E event editor w) = timers w"
    unfolding now
    by (simp_all add: onCompositionEndInternal_def setCompositionKey_def emit_def)
qed

theorem onCompositionEnd_deferred_on_firefox_only_witness:
  "IS_FIREFOX firefox_environment \<and> \<not> IS_FIREFOX example_environment \<and>
   trace (onCompositionEnd firefox_environment (plain_event ''compositionend'') root_editor
            fresh_world) = [] \<and>
   trace (runTimers (onInput firefox_environment (plain_event ''input'') root_editor
            (onCompositionEnd firefox_environment (plain_event ''compositionend'') root_editor
               fresh_world))) =
     [StopPropagation, UpdateSelectedTextFromDOM root_editor False, FlushMutations root_editor,
      SetCompositionKey root_editor None, UpdateSelectedTextFromDOM root_editor True] \<and>
   trace (onCompositionEnd example_environment (plain_event ''compositionend'') root_editor
            fresh_world) =
     [SetCompositionKey root_editor None, UpdateSelectedTextFromDOM root_editor True]"
proof -
  have ff: "IS_FIREFOX firefox_environment" and nf: "\<not> IS_FIREFOX example_environment"
    by (simp_all add: firefox_environment_def example_environment_def)
  have input: "trace (runTimers (onInput firefox_environment (plain_event ''input'') root_editor
      fresh_world)) = [StopPropagation, UpdateSelectedTextFromDOM root_editor False,
        FlushMutations root_editor]"
    by (simp add: runTimers_def onInput_def Let_def stopPropagation_def plain_event_def
        fresh_world_def emit_def)
  have e: "trace fresh_world = []"
    by (simp add: fresh_world_def)
  from onCompositionEnd_deferred_on_firefox_only
    [of firefox_environment "plain_event ''compositionend''" root_editor fresh_world
      "plain_event ''input''" root_editor]
    onCompositionEnd_deferred_on_firefox_only
    [of example_environment "plain_event ''compositionend''" root_editor fresh_world
      "plain_event ''input''" root_editor]
    ff nf input e
  show ?thesis by simp
qed

section \<open>Click correction\<close>

text \<open>
  C9. A click clears the native selection and marks the editor's selection dirty exactly
  when the editor has a selection that is collapsed at offset 0 of an element point, the
  root node has exactly one child, the top-level element of the anchor node is empty, and
  the selection is the same (by the selection's own \<^verbatim>\<open>is\<close>) as the non-null selection of
  the committed editor state. In that case these are the only changes. In every other case
  the click changes nothing: the native selection and the editor's selection stay as they
  were, also where the engine throws for want of a top-level element.
\<close>

theorem onClick_clears_native_selection_iff:
  "(selection w editor = Some sel \<and> point_type (anchor sel) = ''element'' \<and>
    offset (anchor sel) = 0 \<and> isCollapsed sel \<and> rootChildrenSize w editor = 1 \<and>
    topLevelElementIsEmpty (getNode (anchor sel)) = Some True \<and>
    editorStateSelection w editor = Some lastSelection \<and> selection_is E sel lastSelection
    \<longrightarrow>
      onClick E event editor w =
        Inr (w\<lparr>windowAnchorNode := None, trace := trace w @ [RemoveAllRanges],
               selection := (selection w)(editor \<mapsto> sel\<lparr>dirty := True\<rparr>)\<rparr>)) \<and>
   (\<not> (\<exists>s l. selection w editor = Some s \<and> point_type (anchor s) = ''element'' \<and>
        offset (anchor s) = 0 \<and> isCollapsed s \<and> rootChildrenSize w editor = 1 \<and>
        topLevelElementIsEmpty (getNode (anchor s)) = Some True \<and>
        editorStateSelection w editor = Some l \<and> selection_is E s l)
    \<longrightarrow> world_after (onClick E event editor w) = w)"
proof (intro conjI impI)
  assume "selection w editor = Some sel \<and> point_type (anchor sel) = ''element'' \<and>
    offset (anchor sel) = 0 \<and> isCollapsed sel \<and> rootChildrenSize w editor = 1 \<and>
    topLevelElementIsEmpty (getNode (anchor sel)) = Some True \<and>
    editorStateSelection w editor = Some lastSelection \<and> selection_is E sel lastSelection"
  then show "onClick E event editor w =
      Inr (w\<lparr>windowAnchorNode := None, trace := trace w @ [RemoveAllRanges],
             selection := (selection w)(editor \<mapsto> sel\<lparr>dirty := True\<rparr>)\<rparr>)"
    by (simp add: onClick_def writeSelection_def removeAllRanges_def emit_def)
next
  assume no: "\<not> (\<exists>s l. selection w editor = Some s \<and> point_type (anchor s) = ''element'' \<and>
        offset (anchor s) = 0 \<and> isCollapsed s \<and> rootChildrenSize w editor = 1 \<and>
        topLevelElementIsEmpty (getNode (anchor s)) = Some True \<and>
        editorStateSelection w editor = Some l \<and> selection_is E s l)"
  show "world_after (onClick E event editor w) = w"
  proof (cases "selection w editor")
    case None
    then show ?thesis by (simp add: onClick_def world_after_def)
  next
    case (Some s)
    with no show ?thesis
      by (auto simp: onClick_def world_after_def split: option.splits)
  qed
qed

theorem onClick_clears_native_selection_iff_witness:
  "windowAnchorNode empty_document_world = Some (DomNode 0 None) \<and>
   windowAnchorNode (world_after (onClick example_environment (plain_event ''click'') root_editor
      empty_document_world)) = None \<and>
   trace (world_after (onClick example_environment (plain_event ''click'') root_editor
      empty_document_world)) = [RemoveAllRanges] \<and>
   world_after (onClick example_environment (plain_event ''click'') root_editor
      (empty_document_world\<lparr>rootChildrenSize := (\<lambda>e. 2)\<rparr>)) =
     empty_document_world\<lparr>rootChildrenSize := (\<lambda>e. 2)\<rparr>"
proof -
  let ?s = "collapsed_at paragraph_node 0"
  have pre: "selection empty_document_world root_editor = Some ?s \<and>
      point_type (anchor ?s) = ''element'' \<and> offset (anchor ?s) = 0 \<and> isCollapsed ?s \<and>
      rootChildrenSize empty_document_world root_editor = 1 \<and>
      topLevelElementIsEmpty (getNode (anchor ?s)) = Some True \<and>
      editorStateSelection empty_document_world root_editor = Some ?s \<and>
      selection_is example_environment ?s ?s"
    by (simp add: empty_document_world_def world_with_selection_def fresh_world_def
        collapsed_at_def paragraph_node_def example_environment_def Let_def)
  have two: "\<not> (\<exists>s l. selection (empty_document_world\<lparr>rootChildrenSize := (\<lambda>e. 2)\<rparr>) root_editor = Some s \<and>
        point_type (anchor s) = ''element'' \<and> offset (anchor s) = 0 \<and> isCollapsed s \<and>
        rootChildrenSize (empty_document_world\<lparr>rootChildrenSize := (\<lambda>e. 2)\<rparr>) root_editor = 1 \<and>
        topLevelElementIsEmpty (getNode (anchor s)) = Some True \<and>
        editorStateSelection (empty_document_world\<lparr>rootChildrenSize := (\<lambda>e. 2)\<rparr>) root_editor = Some l \<and>
        selection_is example_environment s l)"
    by simp
  have anchor: "windowAnchorNode empty_document_world = Some (DomNode 0 None)"
    and e: "trace empty_document_world = []"
    by (simp_all add: empty_document_world_def world_with_selection_def fresh_world_def)
  from onClick_clears_native_selection_iff
    [where w = empty_document_world and editor = root_editor and sel = ?s and
      lastSelection = ?s and E = example_environment and event = "plain_event ''click''"]
    onClick_clears_native_selection_iff
    [where w = "empty_document_world\<lparr>rootChildrenSize := (\<lambda>e. 2)\<rparr>" and editor = root_editor and
      sel = ?s and lastSelection = ?s and E = example_environment and
      event = "plain_event ''click''"]
    pre two anchor e
  show ?thesis by (simp add: world_after_def)
qed

section \<open>Selection change arbitration\<close>

lemma walkFrom_taggedAncestor:
  "walkFrom node w =
    (case taggedAncestor node w of
       None \<Rightarrow> Inr w
     | Some (Obj nextActiveEditor) \<Rightarrow> Inr (propagateSelectionChange nextActiveEditor w)
     | Some _ \<Rightarrow> Inl (TypeError, w))"
proof (induction node w rule: walkFrom.induct)
  case (1 i p w)
  show ?case
  proof (cases "contentEditable (elements w i) = ''true'' \<and> lexicalEditor (elements w i) \<noteq> Undefined")
    case True
    then show ?thesis by (cases "lexicalEditor (elements w i)") simp_all
  next
    case False
    with "1.IH" show ?thesis by (cases p) auto
  qed
qed

lemma getEditorsToPropagate_not_Nil [simp]: "getEditorsToPropagate e \<noteq> []"
  by (cases e rule: getEditorsToPropagate.cases) simp_all


lemma rootOf_nested: "parentEditor e = Some p \<Longrightarrow> rootOf e = rootOf p"
  by (cases e) (simp add: rootOf_def)



text \<open>
  C2. When the map of active nested editors has the nested editor \<open>A\<close> for the key of the
  root \<open>R\<close>, and the upward walk from the platform's anchor node finds a different editor
  \<open>B\<close>, nested below the same root, a selection-change notification returns normally and
  does exactly this: \<open>A\<close> is updated with its selection set to null; \<open>B\<close> is updated with
  the format of its selection recomputed when that selection is collapsed (the format of
  the anchor node for a text point, zero for an element point) and receives the
  \<^verbatim>\<open>selectionChange\<close> command; and the map's entry for the key of \<open>R\<close> becomes \<open>B\<close>.
\<close>

theorem selection_moves_between_nested_editors:
  "windowAnchorNode w = Some node \<Longrightarrow> taggedAncestor node w = Some (Obj B) \<Longrightarrow>
   rootOf B = R \<Longrightarrow> B \<noteq> R \<Longrightarrow> activeNestedEditorsMap w (editor_key R) = Some A \<Longrightarrow> A \<noteq> B \<Longrightarrow>
   \<exists>w'. onDocumentSelectionChange w = Inr w' \<and>
     trace w' = trace w @ [SetSelection A None, ExecCommand B ''selectionChange'' NoPayload] \<and>
     selection w' A = None \<and>
     selection w' B =
       (case selection w B of
          None \<Rightarrow> None
        | Some s \<Rightarrow>
            Some (if isCollapsed s \<and> point_type (anchor s) = ''text''
                  then s\<lparr>format := getFormat (getNode (anchor s))\<rparr>
                  else if isCollapsed s \<and> point_type (anchor s) = ''element''
                  then s\<lparr>format := 0\<rparr>
                  else s)) \<and>
     activeNestedEditorsMap w' = (activeNestedEditorsMap w)(editor_key R \<mapsto> B)"
proof -
  assume anchor: "windowAnchorNode w = Some node"
    and found: "taggedAncestor node w = Some (Obj B)"
    and root: "rootOf B = R" and nested: "B \<noteq> R"
    and active: "activeNestedEditorsMap w (editor_key R) = Some A" and moved: "A \<noteq> B"
  define w1 where "w1 = onSelectionChange A False w"
  define w2 where "w2 = onSelectionChange B True w1"
  have call: "onDocumentSelectionChange w = Inr (propagateSelectionChange B w)"
    using anchor found by (simp add: onDocumentSelectionChange_def walkFrom_taggedAncestor)
  have body: "propagateSelectionChange B w =
      w2\<lparr>activeNestedEditorsMap := (activeNestedEditorsMap w2)(editor_key R \<mapsto> B)\<rparr>"
    using root nested active moved
    by (simp add: propagateSelectionChange_def Let_def rootOf_def w1_def w2_def)
  have w1: "trace w1 = trace w @ [SetSelection A None]" "selection w1 A = None"
    "selection w1 B = selection w B" "activeNestedEditorsMap w1 = activeNestedEditorsMap w"
    using moved by (simp_all add: w1_def onSelectionChange_def setSelection_def emit_def)
  have w2: "trace w2 = trace w1 @ [ExecCommand B ''selectionChange'' NoPayload]"
    "selection w2 A = selection w1 A"
    "activeNestedEditorsMap w2 = activeNestedEditorsMap w1"
    using moved
    by (simp_all add: w2_def onSelectionChange_def Let_def writeSelection_def execCommand_def
        emit_def split: option.splits)
  have fmt: "selection w2 B =
      (case selection w1 B of
         None \<Rightarrow> None
       | Some s \<Rightarrow>
           Some (if isCollapsed s \<and> point_type (anchor s) = ''text''
                 then s\<lparr>format := getFormat (getNode (anchor s))\<rparr>
                 else if isCollapsed s \<and> point_type (anchor s) = ''element''
                 then s\<lparr>format := 0\<rparr>
                 else s))"
    by (simp add: w2_def onSelectionChange_def Let_def writeSelection_def execCommand_def
        emit_def split: option.splits)
  show ?thesis
    unfolding call body using w1 w2 fmt by simp
qed

theorem selection_moves_between_nested_editors_witness:
  "taggedAncestor (DomNode 5 (Some (DomNode 2 (Some (DomNode 0 None))))) two_nested_world =
     Some (Obj nested_b) \<and>
   rootOf nested_b = root_editor \<and>
   activeNestedEditorsMap two_nested_world (editor_key root_editor) = Some nested_a \<and>
   (\<exists>w'. onDocumentSelectionChange two_nested_world = Inr w' \<and>
      trace w' = [SetSelection nested_a None, ExecCommand nested_b ''selectionChange'' NoPayload] \<and>
      selection w' nested_a = None \<and>
      selection w' nested_b = Some ((collapsed_at text_node 2)\<lparr>format := 3\<rparr>) \<and>
      activeNestedEditorsMap w' ''root'' = Some nested_b)"
proof -
  let ?n = "DomNode 5 (Some (DomNode 2 (Some (DomNode 0 None))))"
  have anchor: "windowAnchorNode two_nested_world = Some ?n"
    by (simp add: two_nested_world_def)
  have found: "taggedAncestor ?n two_nested_world = Some (Obj nested_b)"
    by (simp add: two_nested_world_def fresh_element_def)
  have root: "rootOf nested_b = root_editor"
    by (simp add: rootOf_def nested_b_def root_editor_def)
  have nested: "nested_b \<noteq> root_editor"
    by (simp add: nested_b_def root_editor_def)
  have active: "activeNestedEditorsMap two_nested_world (editor_key root_editor) = Some nested_a"
    by (simp add: two_nested_world_def root_editor_def)
  have moved: "nested_a \<noteq> nested_b"
    by (simp add: nested_a_def nested_b_def)
  have facts: "trace two_nested_world = []"
    "selection two_nested_world nested_b = Some (collapsed_at text_node 2)"
    "isCollapsed (collapsed_at text_node 2)"
    "point_type (anchor (collapsed_at text_node 2)) = ''text''"
    "getFormat (getNode (anchor (collapsed_at text_node 2))) = 3"
    "editor_key root_editor = ''root''"
    using moved
    by (simp_all add: two_nested_world_def fresh_world_def collapsed_at_def Let_def
        text_node_def root_editor_def)
  from selection_moves_between_nested_editors [OF anchor found root nested active moved]
  obtain w' where "onDocumentSelectionChange two_nested_world = Inr w'"
    "trace w' = trace two_nested_world @
        [SetSelection nested_a None, ExecCommand nested_b ''selectionChange'' NoPayload]"
    "selection w' nested_a = None"
    "selection w' nested_b = Some ((collapsed_at text_node 2)\<lparr>format := 3\<rparr>)"
    "activeNestedEditorsMap w' =
        (activeNestedEditorsMap two_nested_world)(editor_key root_editor \<mapsto> nested_b)"
    using facts by auto
  with found root active facts show ?thesis by simp
qed

section \<open>The map of active nested editors\<close>

lemma map_emit [simp]: "activeNestedEditorsMap (emit x w) = activeNestedEditorsMap w"
  by (simp add: emit_def)

lemma map_execCommand [simp]:
  "activeNestedEditorsMap (execCommand editor name p w) = activeNestedEditorsMap w"
  by (simp add: execCommand_def)

lemma map_preventDefault [simp]:
  "activeNestedEditorsMap (preventDefault w) = activeNestedEditorsMap w"
  by (simp add: preventDefault_def)

lemma map_setCompositionKey [simp]:
  "activeNestedEditorsMap (setCompositionKey editor k w) = activeNestedEditorsMap w"
  by (simp add: setCompositionKey_def)

lemma map_writeSelection [simp]:
  "activeNestedEditorsMap (writeSelection editor s w) = activeNestedEditorsMap w"
  by (simp add: writeSelection_def)

lemma map_updateElement [simp]:
  "activeNestedEditorsMap (updateElement r f w) = activeNestedEditorsMap w"
  by (simp add: updateElement_def)

lemma map_onSelectionChange [simp]:
  "activeNestedEditorsMap (onSelectionChange editor isActive w) = activeNestedEditorsMap w"
  by (simp add: onSelectionChange_def Let_def setSelection_def split: option.splits)












lemma map_registerEvent [simp]:
  "activeNestedEditorsMap (registerEvent r editor entry w) = activeNestedEditorsMap w"
  by (simp add: registerEvent_def Let_def pushRemoveHandle_def addEventListener_def)







lemma map_fold_runRemoveHandle [simp]:
  "activeNestedEditorsMap (fold runRemoveHandle hs w) = activeNestedEditorsMap w"
  by (induction hs arbitrary: w) (simp_all add: runRemoveHandle_def removeEventListener_def)

lemma map_getRootElementRemoveHandles [simp]:
  "activeNestedEditorsMap (snd (getRootElementRemoveHandles r w)) = activeNestedEditorsMap w"
  by (simp add: getRootElementRemoveHandles_def split: option.splits)


lemma removeRootElementEvents_not_Obj:
  "lexicalEditor (elements w r) = Undefined \<or> lexicalEditor (elements w r) = Null \<Longrightarrow>
   removeRootElementEvents r w = Inl (TypeError, w)"
  by (auto simp: removeRootElementEvents_def cleanActiveNestedEditorsMap_def)








section \<open>Attach and detach\<close>

lemma elements_updateElement [simp]:
  "elements (updateElement r f w) x = (if x = r then f (elements w r) else elements w x)"
  by (simp add: updateElement_def)

lemma updateElement_frame [simp]:
  "nextClosure (updateElement r f w) = nextClosure w"
  "trace (updateElement r f w) = trace w"
  "getRootElement (updateElement r f w) = getRootElement w"
  by (simp_all add: updateElement_def)

text \<open>One iteration of the loop, when the fresh closure identity is above all listeners.\<close>

lemma registerEvent_element:
  assumes "\<forall>l \<in> set (listeners (elements w r)). listener_id l < nextClosure w"
  shows "elements (registerEvent r editor entry w) r =
      (elements w r)
        \<lparr>lexicalEventHandles :=
           Some ((case lexicalEventHandles (elements w r) of None \<Rightarrow> [] | Some hs \<Rightarrow> hs) @
                 [handle_of r \<lparr>listener_id = nextClosure w, eventName = fst entry,
                    onEvent = snd entry, listener_editor = editor\<rparr>]),
         listeners := listeners (elements w r) @
           [\<lparr>listener_id = nextClosure w, eventName = fst entry, onEvent = snd entry,
             listener_editor = editor\<rparr>]\<rparr>"
proof -
  have "(fst entry, nextClosure w) \<notin>
      set (map (\<lambda>x. (eventName x, listener_id x)) (listeners (elements w r)))"
    using assms by auto
  then show ?thesis
    by (simp add: registerEvent_def Let_def addEventListener_def pushRemoveHandle_def
        handle_of_def)
qed

lemma registerEvent_frame [simp]:
  "nextClosure (registerEvent r editor entry w) = Suc (nextClosure w)"
  "trace (registerEvent r editor entry w) = trace w"
  "getRootElement (registerEvent r editor entry w) = getRootElement w"
  "x \<noteq> r \<Longrightarrow> elements (registerEvent r editor entry w) x = elements w x"
  "contentEditable (elements (registerEvent r editor entry w) x) = contentEditable (elements w x)"
  "lexicalEditor (elements (registerEvent r editor entry w) x) = lexicalEditor (elements w x)"
  by (simp_all add: registerEvent_def Let_def addEventListener_def pushRemoveHandle_def)

lemma fold_registerEvent_frame [simp]:
  "nextClosure (fold (registerEvent r editor) es w) = nextClosure w + length es"
  "trace (fold (registerEvent r editor) es w) = trace w"
  "getRootElement (fold (registerEvent r editor) es w) = getRootElement w"
  "contentEditable (elements (fold (registerEvent r editor) es w) x) =
     contentEditable (elements w x)"
  "lexicalEditor (elements (fold (registerEvent r editor) es w) x) = lexicalEditor (elements w x)"
  by (induction es arbitrary: w) simp_all

text \<open>The whole loop: the closures are appended to the listeners, their handles to the handles.\<close>

lemma fold_registerEvent_element:
  assumes "\<forall>l \<in> set (listeners (elements w r)). listener_id l < nextClosure w"
  shows "elements (fold (registerEvent r editor) es w) r =
      (elements w r)
        \<lparr>lexicalEventHandles :=
           (if es = [] then lexicalEventHandles (elements w r)
            else Some ((case lexicalEventHandles (elements w r) of None \<Rightarrow> [] | Some hs \<Rightarrow> hs) @
                       map (handle_of r) (closures (nextClosure w) editor es))),
         listeners := listeners (elements w r) @ closures (nextClosure w) editor es\<rparr>"
  using assms
proof (induction es arbitrary: w)
  case Nil
  then show ?case by simp
next
  case (Cons entry es)
  let ?w = "registerEvent r editor entry w"
  have step: "elements ?w r =
      (elements w r)
        \<lparr>lexicalEventHandles :=
           Some ((case lexicalEventHandles (elements w r) of None \<Rightarrow> [] | Some hs \<Rightarrow> hs) @
                 [handle_of r \<lparr>listener_id = nextClosure w, eventName = fst entry,
                    onEvent = snd entry, listener_editor = editor\<rparr>]),
         listeners := listeners (elements w r) @
           [\<lparr>listener_id = nextClosure w, eventName = fst entry, onEvent = snd entry,
             listener_editor = editor\<rparr>]\<rparr>"
    using Cons.prems by (rule registerEvent_element)
  have "\<forall>l \<in> set (listeners (elements ?w r)). listener_id l < nextClosure ?w"
    unfolding step using Cons.prems by (auto simp: less_Suc_eq)
  from Cons.IH [OF this] show ?case
    unfolding step by simp
qed

lemma closures_ids:
  "l \<in> set (closures c editor es) \<Longrightarrow> c \<le> listener_id l \<and> listener_id l < c + length es"
  by (induction es arbitrary: c) fastforce+

lemma length_closures [simp]: "length (closures c editor es) = length es"
  by (induction es arbitrary: c) simp_all

lemma length_rootElementEvents [simp]: "length (rootElementEvents E) = 12"
  by (simp add: rootElementEvents_def)

text \<open>An attach on an element that has no listeners yet.\<close>

lemma addRootElementEvents_element:
  assumes "\<forall>l \<in> set (listeners (elements w r)). listener_id l < nextClosure w"
  shows "elements (addRootElementEvents E r editor w) r =
      (elements w r)
        \<lparr>lexicalEventHandles :=
           Some ((case lexicalEventHandles (elements w r) of None \<Rightarrow> [] | Some hs \<Rightarrow> hs) @
                 map (handle_of r) (closures (nextClosure w) editor (rootElementEvents E))),
         listeners := listeners (elements w r) @
           closures (nextClosure w) editor (rootElementEvents E)\<rparr>"
proof -
  let ?w = "snd (getRootElementRemoveHandles r w)"
  have same: "listeners (elements ?w r) = listeners (elements w r)" "nextClosure ?w = nextClosure w"
    by (simp_all add: getRootElementRemoveHandles_def split: option.splits)
  have handles: "lexicalEventHandles (elements ?w r) =
      Some (case lexicalEventHandles (elements w r) of None \<Rightarrow> [] | Some hs \<Rightarrow> hs)"
    by (simp add: getRootElementRemoveHandles_def split: option.splits)
  have rest: "(elements ?w r)\<lparr>lexicalEventHandles := a, listeners := b\<rparr> =
      (elements w r)\<lparr>lexicalEventHandles := a, listeners := b\<rparr>" for a b
    by (simp add: getRootElementRemoveHandles_def split: option.splits)
  have "\<forall>l \<in> set (listeners (elements ?w r)). listener_id l < nextClosure ?w"
    using assms by (simp add: same)
  from fold_registerEvent_element [OF this, of editor "rootElementEvents E"]
  have "elements (addRootElementEvents E r editor w) r =
      (elements ?w r)
        \<lparr>lexicalEventHandles :=
           Some ((case lexicalEventHandles (elements w r) of None \<Rightarrow> [] | Some hs \<Rightarrow> hs) @
                 map (handle_of r) (closures (nextClosure w) editor (rootElementEvents E))),
         listeners := listeners (elements w r) @
           closures (nextClosure w) editor (rootElementEvents E)\<rparr>"
    by (simp add: addRootElementEvents_def same handles rootElementEvents_def)
  then show ?thesis by (simp only: rest)
qed

lemma addRootElementEvents_frame [simp]:
  "nextClosure (addRootElementEvents E r editor w) = nextClosure w + 12"
  "trace (addRootElementEvents E r editor w) = trace w"
  "getRootElement (addRootElementEvents E r editor w) = getRootElement w"
  "contentEditable (elements (addRootElementEvents E r editor w) x) = contentEditable (elements w x)"
  "lexicalEditor (elements (addRootElementEvents E r editor w) x) = lexicalEditor (elements w x)"
  by (simp_all add: addRootElementEvents_def getRootElementRemoveHandles_def split: option.splits)

lemma isRootEditable_addRootElementEvents [simp]:
  "isRootEditable e (addRootElementEvents E r editor w) = isRootEditable e w"
  by (simp add: isRootEditable_def split: option.splits)

text \<open>Running removal handles removes exactly the listeners that the handles name.\<close>

lemma fold_runRemoveHandle_listeners:
  "listeners (elements (fold runRemoveHandle hs w) r) =
     filter (\<lambda>l. (r, eventName l, listener_id l) \<notin>
                   set (map (\<lambda>h. (handle_element h, handle_eventName h, handle_listener h)) hs))
       (listeners (elements w r))"
proof (induction hs arbitrary: w)
  case Nil
  then show ?case by simp
next
  case (Cons h hs)
  have "listeners (elements (runRemoveHandle h w) r) =
      filter (\<lambda>l. (r, eventName l, listener_id l) \<noteq>
                    (handle_element h, handle_eventName h, handle_listener h))
        (listeners (elements w r))"
    by (auto simp: runRemoveHandle_def removeEventListener_def intro: filter_cong)
  with Cons.IH [of "runRemoveHandle h w"] show ?case
    by (auto intro: filter_cong)
qed

lemma fold_runRemoveHandle_frame [simp]:
  "trace (fold runRemoveHandle hs w) = trace w"
  "lexicalEventHandles (elements (fold runRemoveHandle hs w) r) = lexicalEventHandles (elements w r)"
  "lexicalEditor (elements (fold runRemoveHandle hs w) r) = lexicalEditor (elements w r)"
  by (induction hs arbitrary: w) (simp_all add: runRemoveHandle_def removeEventListener_def)

text \<open>
  A detach of an element whose back-reference is an editor returns normally, leaves no
  listener that has a removal handle, and leaves the handle list empty.
\<close>

lemma removeRootElementEvents_listeners:
  assumes "lexicalEditor (elements w r) = Obj e"
  shows "\<exists>w'. removeRootElementEvents r w = Inr w' \<and>
      listeners (elements w' r) =
        filter (\<lambda>l. (r, eventName l, listener_id l) \<notin>
                  set (map (\<lambda>h. (handle_element h, handle_eventName h, handle_listener h))
                    (case lexicalEventHandles (elements w r) of None \<Rightarrow> [] | Some hs \<Rightarrow> hs)))
          (listeners (elements w r)) \<and>
      lexicalEventHandles (elements w' r) = Some [] \<and>
      lexicalEditor (elements w' r) = Null \<and>
      trace w' = trace w"
proof -
  have "\<exists>w1. cleanActiveNestedEditorsMap (Obj e) w = Inr w1 \<and> elements w1 = elements w \<and>
      trace w1 = trace w"
    by (simp add: cleanActiveNestedEditorsMap_def Let_def)
  then obtain w1 where clean: "cleanActiveNestedEditorsMap (Obj e) w = Inr w1"
    and same: "elements w1 = elements w" "trace w1 = trace w"
    by blast
  show ?thesis
    using assms clean
    by (simp add: removeRootElementEvents_def Let_def clearRootElementRemoveHandles_def
        getRootElementRemoveHandles_def fold_runRemoveHandle_listeners same
        split: option.splits)
qed


text \<open>Two attaches in a row on an element without listeners.\<close>

lemma double_attach_element:
  assumes "listeners (elements w r) = []"
  shows "listeners (elements (addRootElementEvents E r editor (addRootElementEvents E r editor w)) r) =
      closures (nextClosure w) editor (rootElementEvents E) @
      closures (nextClosure w + 12) editor (rootElementEvents E)"
    and "lexicalEventHandles
        (elements (addRootElementEvents E r editor (addRootElementEvents E r editor w)) r) =
      Some ((case lexicalEventHandles (elements w r) of None \<Rightarrow> [] | Some hs \<Rightarrow> hs) @
            map (handle_of r) (closures (nextClosure w) editor (rootElementEvents E)) @
            map (handle_of r) (closures (nextClosure w + 12) editor (rootElementEvents E)))"
proof -
  let ?w1 = "addRootElementEvents E r editor w"
  have none: "\<forall>l \<in> set (listeners (elements w r)). listener_id l < nextClosure w"
    using assms by simp
  have first: "elements ?w1 r =
      (elements w r)
        \<lparr>lexicalEventHandles :=
           Some ((case lexicalEventHandles (elements w r) of None \<Rightarrow> [] | Some hs \<Rightarrow> hs) @
                 map (handle_of r) (closures (nextClosure w) editor (rootElementEvents E))),
         listeners := listeners (elements w r) @
           closures (nextClosure w) editor (rootElementEvents E)\<rparr>"
    using none by (rule addRootElementEvents_element)
  have "\<forall>l \<in> set (listeners (elements ?w1 r)). listener_id l < nextClosure ?w1"
    unfolding first using assms by (auto dest: closures_ids)
  from addRootElementEvents_element [OF this, of E editor]
  have second: "elements (addRootElementEvents E r editor ?w1) r =
      (elements ?w1 r)
        \<lparr>lexicalEventHandles :=
           Some ((case lexicalEventHandles (elements ?w1 r) of None \<Rightarrow> [] | Some hs \<Rightarrow> hs) @
                 map (handle_of r) (closures (nextClosure ?w1) editor (rootElementEvents E))),
         listeners := listeners (elements ?w1 r) @
           closures (nextClosure ?w1) editor (rootElementEvents E)\<rparr>" .
  show "listeners (elements (addRootElementEvents E r editor ?w1) r) =
      closures (nextClosure w) editor (rootElementEvents E) @
      closures (nextClosure w + 12) editor (rootElementEvents E)"
    unfolding second unfolding first using assms by simp
  show "lexicalEventHandles (elements (addRootElementEvents E r editor ?w1) r) =
      Some ((case lexicalEventHandles (elements w r) of None \<Rightarrow> [] | Some hs \<Rightarrow> hs) @
            map (handle_of r) (closures (nextClosure w) editor (rootElementEvents E)) @
            map (handle_of r) (closures (nextClosure w + 12) editor (rootElementEvents E)))"
    unfolding second unfolding first by simp
qed

text \<open>Among the closures of one attach, exactly one listens to the name of a table entry.\<close>

lemma filter_closures_none:
  "n \<notin> fst ` set es \<Longrightarrow> filter (\<lambda>l. eventName l = n) (closures c editor es) = []"
  by (induction es arbitrary: c) auto

lemma filter_closures_one:
  "distinct (map fst es) \<Longrightarrow> (n, h) \<in> set es \<Longrightarrow>
   \<exists>i. filter (\<lambda>l. eventName l = n) (closures c editor es) =
     [\<lparr>listener_id = i, eventName = n, onEvent = h, listener_editor = editor\<rparr>]"
proof (induction es arbitrary: c)
  case Nil
  then show ?case by simp
next
  case (Cons entry es)
  show ?case
  proof (cases "fst entry = n")
    case True
    with Cons.prems have "entry = (n, h)" and "n \<notin> fst ` set es"
      by (auto simp: image_iff)
    then show ?thesis
      by (simp add: filter_closures_none)
  next
    case False
    with Cons.prems have "distinct (map fst es)" and "(n, h) \<in> set es" by auto
    from Cons.IH [OF this, of "Suc c"] False show ?thesis by simp
  qed
qed

lemma distinct_rootElementEvents: "distinct (map fst (rootElementEvents E))"
  by (simp add: rootElementEvents_def)

text \<open>A pass-through listener of an editable editor issues the command named after the event.\<close>

lemma pass_through_listener:
  "isRootEditable editor w \<Longrightarrow>
   reported (eventHandler E
      \<lparr>listener_id = i, eventName = n, onEvent = PASS_THROUGH_COMMAND, listener_editor = editor\<rparr>
      event w) = execCommand editor n (EventPayload event) w"
  by (simp add: eventHandler_def reported_def)

lemma isRootEditable_execCommand [simp]:
  "isRootEditable e (execCommand editor n p w) = isRootEditable e w"
  by (simp add: isRootEditable_def execCommand_def emit_def split: option.splits)

text \<open>
  A pass-through event after one attach and after two attaches of an editable editor on an
  element without earlier listeners: one command, and the same command twice.
\<close>

lemma pass_through_after_attach:
  assumes fresh: "listeners (elements w r) = []"
    and entry: "(event_type event, PASS_THROUGH_COMMAND) \<in> set (rootElementEvents E)"
    and editable: "isRootEditable editor w"
  shows "trace (dispatchEvent E r event (addRootElementEvents E r editor w)) =
      trace w @ [ExecCommand editor (event_type event) (EventPayload event)]"
    and "trace (dispatchEvent E r event
        (addRootElementEvents E r editor (addRootElementEvents E r editor w))) =
      trace w @ [ExecCommand editor (event_type event) (EventPayload event),
                 ExecCommand editor (event_type event) (EventPayload event)]"
proof -
  let ?n = "event_type event"
  let ?w1 = "addRootElementEvents E r editor w"
  let ?w2 = "addRootElementEvents E r editor ?w1"
  have none: "\<forall>l \<in> set (listeners (elements w r)). listener_id l < nextClosure w"
    using fresh by simp
  have one: "listeners (elements ?w1 r) = closures (nextClosure w) editor (rootElementEvents E)"
    using addRootElementEvents_element [OF none, of E editor] fresh by simp
  have two: "listeners (elements ?w2 r) =
      closures (nextClosure w) editor (rootElementEvents E) @
      closures (nextClosure w + 12) editor (rootElementEvents E)"
    using fresh by (rule double_attach_element)
  obtain i where i: "filter (\<lambda>l. eventName l = ?n)
      (closures (nextClosure w) editor (rootElementEvents E)) =
      [\<lparr>listener_id = i, eventName = ?n, onEvent = PASS_THROUGH_COMMAND, listener_editor = editor\<rparr>]"
    using filter_closures_one [OF distinct_rootElementEvents entry] by blast
  obtain j where j: "filter (\<lambda>l. eventName l = ?n)
      (closures (nextClosure w + 12) editor (rootElementEvents E)) =
      [\<lparr>listener_id = j, eventName = ?n, onEvent = PASS_THROUGH_COMMAND, listener_editor = editor\<rparr>]"
    using filter_closures_one [OF distinct_rootElementEvents entry] by blast
  show "trace (dispatchEvent E r event ?w1) =
      trace w @ [ExecCommand editor ?n (EventPayload event)]"
    using editable by (simp add: dispatchEvent_def one i pass_through_listener)
  show "trace (dispatchEvent E r event ?w2) =
      trace w @ [ExecCommand editor ?n (EventPayload event),
                 ExecCommand editor ?n (EventPayload event)]"
    using editable by (simp add: dispatchEvent_def two i j pass_through_listener)
qed

text \<open>After a detach that follows attaches on an element without earlier listeners.\<close>

lemma detach_after_double_attach:
  assumes fresh: "listeners (elements w r) = []"
    and tagged: "lexicalEditor (elements w r) = Obj e"
  shows "\<exists>w'. removeRootElementEvents r
        (addRootElementEvents E r editor (addRootElementEvents E r editor w)) = Inr w' \<and>
      listeners (elements w' r) = [] \<and> lexicalEventHandles (elements w' r) = Some [] \<and>
      (\<forall>event. dispatchEvent E r event w' = w')"
proof -
  let ?w2 = "addRootElementEvents E r editor (addRootElementEvents E r editor w)"
  let ?hs = "case lexicalEventHandles (elements ?w2 r) of None \<Rightarrow> [] | Some hs \<Rightarrow> hs"
  have tagged2: "lexicalEditor (elements ?w2 r) = Obj e"
    using tagged by simp
  from removeRootElementEvents_listeners [OF tagged2] obtain w' where
    w': "removeRootElementEvents r ?w2 = Inr w'"
    "listeners (elements w' r) =
        filter (\<lambda>l. (r, eventName l, listener_id l) \<notin>
                  set (map (\<lambda>h. (handle_element h, handle_eventName h, handle_listener h)) ?hs))
          (listeners (elements ?w2 r))"
    "lexicalEventHandles (elements w' r) = Some []"
    by blast
  have covered: "(r, eventName l, listener_id l) \<in>
      set (map (\<lambda>h. (handle_element h, handle_eventName h, handle_listener h)) ?hs)"
    if "l \<in> set (listeners (elements ?w2 r))" for l
  proof -
    have "handle_of r l \<in> set ?hs"
      using that unfolding double_attach_element [OF fresh] by auto
    then have "(\<lambda>h. (handle_element h, handle_eventName h, handle_listener h)) (handle_of r l)
        \<in> set (map (\<lambda>h. (handle_element h, handle_eventName h, handle_listener h)) ?hs)"
      unfolding set_map by (rule imageI)
    then show ?thesis by (simp add: handle_of_def)
  qed
  have gone: "listeners (elements w' r) = []"
    unfolding w'(2) using covered by (simp add: filter_empty_conv)
  then have "dispatchEvent E r event w' = w'" for event
    by (simp add: dispatchEvent_def)
  with w'(1) w'(3) gone show ?thesis by blast
qed

lemma tracked_world_facts:
  "listeners (elements tracked_world 0) = []"
  "lexicalEditor (elements tracked_world 0) = Obj root_editor"
  "isRootEditable root_editor tracked_world"
  "trace tracked_world = []"
  "(event_type cut_event, PASS_THROUGH_COMMAND) \<in> set (rootElementEvents example_environment)"
  "event_type cut_event = ''cut''"
  by (simp_all add: tracked_world_def addDocumentSelectionChangeEvent_def Let_def
      fresh_world_def fresh_element_def isRootEditable_def root_editor_def cut_event_def
      plain_event_def rootElementEvents_def updateElement_def)

text \<open>
  C4, as the code has it. Take an element without listeners whose editor back-reference is
  set. Two attaches in a row register two distinct closures for every entry of the table,
  so the platform calls a handler twice for each event: a pass-through event on an editable
  editor issues its command once after one attach and twice after two. A detach after the
  two attaches returns normally and reverses all registrations: no listener is left on the
  element, the handle list is empty, and dispatching any event changes nothing.
\<close>

theorem double_attach_registers_twice_detach_reverses:
  "listeners (elements w r) = [] \<Longrightarrow> lexicalEditor (elements w r) = Obj e \<Longrightarrow>
   listeners (elements (addRootElementEvents E r editor (addRootElementEvents E r editor w)) r) =
     closures (nextClosure w) editor (rootElementEvents E) @
     closures (nextClosure w + 12) editor (rootElementEvents E) \<and>
   (\<forall>event. (event_type event, PASS_THROUGH_COMMAND) \<in> set (rootElementEvents E) \<and>
      isRootEditable editor w \<longrightarrow>
      trace (dispatchEvent E r event (addRootElementEvents E r editor w)) =
        trace w @ [ExecCommand editor (event_type event) (EventPayload event)] \<and>
      trace (dispatchEvent E r event
          (addRootElementEvents E r editor (addRootElementEvents E r editor w))) =
        trace w @ [ExecCommand editor (event_type event) (EventPayload event),
                   ExecCommand editor (event_type event) (EventPayload event)]) \<and>
   (\<exists>w'. removeRootElementEvents r
        (addRootElementEvents E r editor (addRootElementEvents E r editor w)) = Inr w' \<and>
      listeners (elements w' r) = [] \<and> lexicalEventHandles (elements w' r) = Some [] \<and>
      (\<forall>event. dispatchEvent E r event w' = w'))"
proof -
  assume fresh: "listeners (elements w r) = []" and tagged: "lexicalEditor (elements w r) = Obj e"
  note twice = double_attach_element(1) [OF fresh, of E editor]
  note commands = pass_through_after_attach [OF fresh, of _ E editor]
  note reversed = detach_after_double_attach [OF fresh tagged, of E editor]
  from twice commands reversed show ?thesis by blast
qed

theorem double_attach_registers_twice_detach_reverses_witness:
  "listeners (elements tracked_world 0) = [] \<and>
   lexicalEditor (elements tracked_world 0) = Obj root_editor \<and>
   length (listeners (elements
     (addRootElementEvents example_environment 0 root_editor
        (addRootElementEvents example_environment 0 root_editor tracked_world)) 0)) = 24 \<and>
   (\<exists>w'. removeRootElementEvents 0
        (addRootElementEvents example_environment 0 root_editor
           (addRootElementEvents example_environment 0 root_editor tracked_world)) = Inr w' \<and>
      listeners (elements w' 0) = [] \<and>
      dispatchEvent example_environment 0 cut_event w' = w')"
proof -
  note inst = double_attach_registers_twice_detach_reverses
    [OF tracked_world_facts(1) tracked_world_facts(2), of example_environment root_editor]
  from inst have "length (listeners (elements
     (addRootElementEvents example_environment 0 root_editor
        (addRootElementEvents example_environment 0 root_editor tracked_world)) 0)) = 24"
    by simp
  moreover from inst have "\<exists>w'. removeRootElementEvents 0
        (addRootElementEvents example_environment 0 root_editor
           (addRootElementEvents example_environment 0 root_editor tracked_world)) = Inr w' \<and>
      listeners (elements w' 0) = [] \<and>
      dispatchEvent example_environment 0 cut_event w' = w'"
    by blast
  ultimately show ?thesis
    using tracked_world_facts(1) tracked_world_facts(2) by blast
qed

text \<open>
  Attach is not idempotent: after two attaches one \<^verbatim>\<open>cut\<close> event issues the \<^verbatim>\<open>cut\<close>
  command twice, where a single attach issues it once.
\<close>

theorem double_attach_duplicates_commands_counterexample:
  "trace (dispatchEvent example_environment 0 cut_event
      (addRootElementEvents example_environment 0 root_editor tracked_world)) =
     [ExecCommand root_editor ''cut'' (EventPayload cut_event)] \<and>
   trace (dispatchEvent example_environment 0 cut_event
      (addRootElementEvents example_environment 0 root_editor
         (addRootElementEvents example_environment 0 root_editor tracked_world))) =
     [ExecCommand root_editor ''cut'' (EventPayload cut_event),
      ExecCommand root_editor ''cut'' (EventPayload cut_event)]"
  using pass_through_after_attach
    [OF tracked_world_facts(1) tracked_world_facts(5) tracked_world_facts(3)]
  by (simp add: tracked_world_facts(4) tracked_world_facts(6))

text \<open>
  C10, as the code has it. A detach hands the element's editor back-reference to the cleanup
  of the map, which reads the parent editor of what it is given. When the back-reference is
  an editor, as it is once \<open>addDocumentSelectionChangeEvent\<close> has been called for the
  element, before or after an attach, and the element has not been detached since, the
  detach returns normally. It leaves the back-reference \<^verbatim>\<open>null\<close>, so a second detach with
  no new call of \<open>addDocumentSelectionChangeEvent\<close> throws a type error, as does every
  detach of an element whose back-reference is \<^verbatim>\<open>null\<close>. When the back-reference was
  never set, the detach throws a type error before it runs any removal handle: the world is
  left exactly as it was, so on an element that only had an attach, the listeners of that
  attach all stay registered.
\<close>

theorem detach_needs_the_editor_back_reference:
  "(lexicalEditor (elements w r) = Obj editor \<longrightarrow>
      (\<exists>w'. removeRootElementEvents r w = Inr w' \<and> lexicalEditor (elements w' r) = Null \<and>
         removeRootElementEvents r w' = Inl (TypeError, w'))) \<and>
   (\<exists>w'. removeRootElementEvents r (addDocumentSelectionChangeEvent r editor w) = Inr w') \<and>
   (\<exists>w'. removeRootElementEvents r
      (addRootElementEvents E r editor' (addDocumentSelectionChangeEvent r editor w)) = Inr w') \<and>
   (\<exists>w'. removeRootElementEvents r
      (addDocumentSelectionChangeEvent r editor (addRootElementEvents E r editor' w)) = Inr w') \<and>
   (lexicalEditor (elements w r) = Null \<longrightarrow> removeRootElementEvents r w = Inl (TypeError, w)) \<and>
   (lexicalEditor (elements w r) = Undefined \<longrightarrow>
      removeRootElementEvents r w = Inl (TypeError, w) \<and>
      removeRootElementEvents r (addRootElementEvents E r editor' w) =
        Inl (TypeError, addRootElementEvents E r editor' w) \<and>
      (listeners (elements w r) = [] \<longrightarrow>
         listeners (elements (world_after (removeRootElementEvents r
             (addRootElementEvents E r editor' w))) r) =
           closures (nextClosure w) editor' (rootElementEvents E)))"
proof -
  have once: "\<exists>w'. removeRootElementEvents r v = Inr w' \<and> lexicalEditor (elements w' r) = Null \<and>
      removeRootElementEvents r w' = Inl (TypeError, w')"
    if "lexicalEditor (elements v r) = Obj editor" for v
  proof -
    from removeRootElementEvents_listeners [OF that] obtain w' where
      w': "removeRootElementEvents r v = Inr w'" "lexicalEditor (elements w' r) = Null"
      by blast
    from w'(2) have "removeRootElementEvents r w' = Inl (TypeError, w')"
      by (simp add: removeRootElementEvents_not_Obj)
    with w' show ?thesis by blast
  qed
  have ok: "\<exists>w'. removeRootElementEvents r v = Inr w'"
    if "lexicalEditor (elements v r) = Obj editor" for v
    using once [OF that] by blast
  have tagged: "lexicalEditor (elements (addDocumentSelectionChangeEvent r editor v) r) = Obj editor"
    for v
    by (simp add: addDocumentSelectionChangeEvent_def Let_def)
  have never: "removeRootElementEvents r v = Inl (TypeError, v)"
    if "lexicalEditor (elements v r) = Undefined" for v
    using that by (simp add: removeRootElementEvents_not_Obj)
  have stay: "listeners (elements (world_after (removeRootElementEvents r
             (addRootElementEvents E r editor' w))) r) =
           closures (nextClosure w) editor' (rootElementEvents E)"
    if undef: "lexicalEditor (elements w r) = Undefined" and fresh: "listeners (elements w r) = []"
  proof -
    have "\<forall>l \<in> set (listeners (elements w r)). listener_id l < nextClosure w"
      using fresh by simp
    from addRootElementEvents_element [OF this, of E editor'] fresh
    have "listeners (elements (addRootElementEvents E r editor' w) r) =
        closures (nextClosure w) editor' (rootElementEvents E)"
      by simp
    moreover have "removeRootElementEvents r (addRootElementEvents E r editor' w) =
        Inl (TypeError, addRootElementEvents E r editor' w)"
      using undef by (intro never) simp
    ultimately show ?thesis by (simp add: world_after_def)
  qed
  show ?thesis
  proof (intro conjI impI)
    assume "lexicalEditor (elements w r) = Obj editor"
    then show "\<exists>w'. removeRootElementEvents r w = Inr w' \<and> lexicalEditor (elements w' r) = Null \<and>
        removeRootElementEvents r w' = Inl (TypeError, w')"
      by (rule once)
  next
    show "\<exists>w'. removeRootElementEvents r (addDocumentSelectionChangeEvent r editor w) = Inr w'"
      using tagged by (rule ok)
  next
    show "\<exists>w'. removeRootElementEvents r
        (addRootElementEvents E r editor' (addDocumentSelectionChangeEvent r editor w)) = Inr w'"
      by (rule ok) (simp add: tagged)
  next
    show "\<exists>w'. removeRootElementEvents r
        (addDocumentSelectionChangeEvent r editor (addRootElementEvents E r editor' w)) = Inr w'"
      using tagged by (rule ok)
  next
    assume "lexicalEditor (elements w r) = Null"
    then show "removeRootElementEvents r w = Inl (TypeError, w)"
      by (simp add: removeRootElementEvents_not_Obj)
  next
    assume "lexicalEditor (elements w r) = Undefined"
    then show "removeRootElementEvents r w = Inl (TypeError, w)" by (rule never)
  next
    assume "lexicalEditor (elements w r) = Undefined"
    then show "removeRootElementEvents r (addRootElementEvents E r editor' w) =
        Inl (TypeError, addRootElementEvents E r editor' w)"
      by (intro never) simp
  next
    assume "lexicalEditor (elements w r) = Undefined" and "listeners (elements w r) = []"
    then show "listeners (elements (world_after (removeRootElementEvents r
             (addRootElementEvents E r editor' w))) r) =
           closures (nextClosure w) editor' (rootElementEvents E)"
      by (rule stay)
  qed
qed

theorem detach_needs_the_editor_back_reference_witness:
  "lexicalEditor (elements fresh_world 0) = Undefined \<and>
   listeners (elements fresh_world 0) = [] \<and>
   lexicalEditor (elements tracked_world 0) = Obj root_editor \<and>
   (\<exists>w'. removeRootElementEvents 0 tracked_world = Inr w' \<and>
      lexicalEditor (elements w' 0) = Null \<and>
      removeRootElementEvents 0 w' = Inl (TypeError, w')) \<and>
   removeRootElementEvents 0 (addRootElementEvents example_environment 0 root_editor fresh_world) =
     Inl (TypeError, addRootElementEvents example_environment 0 root_editor fresh_world) \<and>
   length (listeners (elements (world_after (removeRootElementEvents 0
       (addRootElementEvents example_environment 0 root_editor fresh_world))) 0)) = 12"
proof -
  have undef: "lexicalEditor (elements fresh_world 0) = Undefined"
    and fresh: "listeners (elements fresh_world 0) = []"
    by (simp_all add: fresh_world_def fresh_element_def)
  note tracked = detach_needs_the_editor_back_reference
    [of tracked_world 0 root_editor example_environment root_editor]
  note untracked = detach_needs_the_editor_back_reference
    [of fresh_world 0 root_editor example_environment root_editor]
  from tracked tracked_world_facts(2)
  have a: "\<exists>w'. removeRootElementEvents 0 tracked_world = Inr w' \<and>
      lexicalEditor (elements w' 0) = Null \<and>
      removeRootElementEvents 0 w' = Inl (TypeError, w')"
    by blast
  from untracked undef
  have b: "removeRootElementEvents 0
      (addRootElementEvents example_environment 0 root_editor fresh_world) =
      Inl (TypeError, addRootElementEvents example_environment 0 root_editor fresh_world)"
    by blast
  from untracked undef fresh
  have "listeners (elements (world_after (removeRootElementEvents 0
       (addRootElementEvents example_environment 0 root_editor fresh_world))) 0) =
       closures (nextClosure fresh_world) root_editor (rootElementEvents example_environment)"
    by blast
  then have c: "length (listeners (elements (world_after (removeRootElementEvents 0
       (addRootElementEvents example_environment 0 root_editor fresh_world))) 0)) = 12"
    by simp
  from undef fresh tracked_world_facts(2) a b c show ?thesis by blast
qed

text \<open>
  A call of \<open>addDocumentSelectionChangeEvent\<close> before a detach is not enough: after the
  call and one detach, which returns normally, a second detach of the same element throws.
\<close>

theorem second_detach_throws_counterexample:
  "\<not> isl (removeRootElementEvents 0 (addDocumentSelectionChangeEvent 0 root_editor fresh_world)) \<and>
   removeRootElementEvents 0
     (world_after (removeRootElementEvents 0
        (addDocumentSelectionChangeEvent 0 root_editor fresh_world))) =
     Inl (TypeError,
       world_after (removeRootElementEvents 0
         (addDocumentSelectionChangeEvent 0 root_editor fresh_world)))"
proof -
  let ?w = "addDocumentSelectionChangeEvent 0 root_editor fresh_world"
  have "lexicalEditor (elements ?w 0) = Obj root_editor"
    by (simp add: addDocumentSelectionChangeEvent_def Let_def)
  from removeRootElementEvents_listeners [OF this] obtain w' where
    w': "removeRootElementEvents 0 ?w = Inr w'" "lexicalEditor (elements w' 0) = Null"
    by blast
  from w'(2) have "removeRootElementEvents 0 w' = Inl (TypeError, w')"
    by (simp add: removeRootElementEvents_not_Obj)
  with w'(1) show ?thesis by (simp add: world_after_def)
qed


end
